theory Spec2Isabelle
  imports Complex_Main
begin

section \<open>Parameterised SQL fragments\<close>

text \<open>
  The query builder assembles its statement with the tagged template \<^verbatim>\<open>Prisma.sql\<close>.
  A fragment is the sequence of its literal pieces and its bound values: an interpolated
  fragment is spliced in, any other interpolated value becomes a bound parameter.
  \<^verbatim>\<open>Prisma.raw(s)\<close> is the fragment holding the literal \<open>s\<close> alone and
  \<^verbatim>\<open>Prisma.empty\<close> the fragment holding nothing.
\<close>

datatype val = StringValue string | NumberValue real | DateValue int

datatype token = Raw string | Bind val

type_synonym Sql = "token list"

definition raw :: "string \<Rightarrow> Sql" where
  "raw s = [Raw s]"

definition empty_sql :: Sql where
  "empty_sql = []"

definition bound :: "val \<Rightarrow> Sql" where
  "bound v = [Bind v]"

text \<open>
  \<^verbatim>\<open>Prisma.join(xs, sep)\<close>. The library rejects an empty list; every call of the
  builder is guarded by a length test, so the empty case is never reached.
\<close>

fun join :: "Sql list \<Rightarrow> string \<Rightarrow> Sql" where
  "join [] sep = []"
| "join [x] sep = x"
| "join (x # y # ys) sep = x @ raw sep @ join (y # ys) sep"

text \<open>The statement text, one \<open>?\<close> for each bound value, and the parameter list.\<close>

fun token_text :: "token \<Rightarrow> string" where
  "token_text (Raw s) = s"
| "token_text (Bind v) = ''?''"

definition sql_text :: "Sql \<Rightarrow> string" where
  "sql_text s = concat (map token_text s)"

fun token_values :: "token \<Rightarrow> val list" where
  "token_values (Raw s) = []"
| "token_values (Bind v) = [v]"

definition sql_values :: "Sql \<Rightarrow> val list" where
  "sql_values s = concat (map token_values s)"

section \<open>Query description and registry\<close>

text \<open>
  The logical tables are the cases of the switch in \<^verbatim>\<open>getMandatoryFilter\<close>.
\<close>

datatype table_name =
  Traces | Traces_observations | Observations | Traces_scores
  | Traces_parent_observation_scores

record ColumnDefinition =
  name :: string
  internal :: string

record TableDefinition =
  table :: string
  columns :: "ColumnDefinition list"

text \<open>
  The registry \<^verbatim>\<open>tableDefinitions\<close> is a parameter of every function that reads it.
\<close>

type_synonym registry = "table_name \<Rightarrow> TableDefinition"

text \<open>
  Modelled from the spec: the schemas of \<^verbatim>\<open>sqlInterface\<close> and of the filters are
  declared outside the builder. A filter carries its kind, column, operator and literal
  value; a group-by entry its kind, its column and, for the datetime kind, a temporal
  unit; kinds, operators, aggregations, directions and units are the strings the builder
  compares and emits.
\<close>

record singleFilter =
  f_type :: string
  f_column :: string
  f_operator :: string
  f_value :: val

record groupByEntry =
  g_type :: string
  g_column :: string
  g_temporalUnit :: "string option"

record selectEntry =
  s_column :: string
  s_agg :: "string option"

record orderByEntry =
  o_column :: string
  o_direction :: string
  o_agg :: "string option"

record query =
  q_from :: table_name
  q_filter :: "singleFilter list option"
  q_groupBy :: "groupByEntry list option"
  q_select :: "selectEntry list"
  q_orderBy :: "orderByEntry list option"
  q_limit :: "nat option"

text \<open>\<^verbatim>\<open>xs ?? []\<close> on an optional list.\<close>

fun orEmpty :: "'a list option \<Rightarrow> 'a list" where
  "orEmpty None = []"
| "orEmpty (Some xs) = xs"

text \<open>\<^verbatim>\<open>xs && xs.length > 0\<close> on an optional list.\<close>

fun nonEmpty :: "'a list option \<Rightarrow> bool" where
  "nonEmpty None = False"
| "nonEmpty (Some xs) = (length xs > 0)"

section \<open>Errors\<close>

text \<open>
  Each \<^verbatim>\<open>throw new Error(...)\<close> of the builder is a value:
  \<open>MultipleDatetimeGroupBy\<close> is "Only one datetime group by is supported",
  \<open>MismatchedRangeColumn\<close> is "Min date column, max date column must match group by column",
  \<open>ColumnNotFoundInTable\<close> is raised by \<^verbatim>\<open>getColumnDefinition\<close> and
  \<open>ColumnNotFound\<close> by \<^verbatim>\<open>prepareFilterString\<close>.
\<close>

datatype error =
  MultipleDatetimeGroupBy
  | MismatchedRangeColumn
  | ColumnNotFoundInTable string table_name
  | ColumnNotFound string

definition bindE :: "'e + 'a \<Rightarrow> ('a \<Rightarrow> 'e + 'b) \<Rightarrow> 'e + 'b" where
  "bindE m f = (case m of Inl e \<Rightarrow> Inl e | Inr x \<Rightarrow> f x)"

text \<open>\<^verbatim>\<open>xs.map(f)\<close> where \<open>f\<close> may throw: the first failure in list order wins.\<close>

fun mapE :: "('a \<Rightarrow> 'e + 'b) \<Rightarrow> 'a list \<Rightarrow> 'e + 'b list" where
  "mapE f [] = Inr []"
| "mapE f (x # xs) = bindE (f x) (\<lambda>y. bindE (mapE f xs) (\<lambda>ys. Inr (y # ys)))"

section \<open>The query builder\<close>

definition getTableSql :: "registry \<Rightarrow> table_name \<Rightarrow> Sql" where
  "getTableSql defs t = raw (table (defs t))"

definition getColumnDefinition ::
  "registry \<Rightarrow> table_name \<Rightarrow> string \<Rightarrow> error + ColumnDefinition" where
  "getColumnDefinition defs t column =
     (case find (\<lambda>c. name c = column) (columns (defs t)) of
        None \<Rightarrow> Inl (ColumnNotFoundInTable column t)
      | Some foundColumn \<Rightarrow> Inr foundColumn)"

definition getInternalSql :: "ColumnDefinition \<Rightarrow> Sql" where
  "getInternalSql colDef = raw (internal colDef)"

text \<open>
  \<^verbatim>\<open>toLowerCase\<close> and \<^verbatim>\<open>toUpperCase\<close> on the ASCII letters, which is what
  aggregation keywords and registry column names are made of.
\<close>

definition asciiUpper :: string where
  "asciiUpper = ''ABCDEFGHIJKLMNOPQRSTUVWXYZ''"

definition asciiLower :: string where
  "asciiLower = ''abcdefghijklmnopqrstuvwxyz''"

definition toLowerCase_char :: "char \<Rightarrow> char" where
  "toLowerCase_char c =
     (case map_of (zip asciiUpper asciiLower) c of Some d \<Rightarrow> d | None \<Rightarrow> c)"

definition toUpperCase_char :: "char \<Rightarrow> char" where
  "toUpperCase_char c =
     (case map_of (zip asciiLower asciiUpper) c of Some d \<Rightarrow> d | None \<Rightarrow> c)"

definition toLowerCase :: "string \<Rightarrow> string" where
  "toLowerCase s = map toLowerCase_char s"

definition toUpperCase :: "string \<Rightarrow> string" where
  "toUpperCase s = map toUpperCase_char s"

text \<open>\<^verbatim>\<open>str.charAt(0).toUpperCase() + str.slice(1)\<close>\<close>

definition capitalizeFirstLetter :: "string \<Rightarrow> string" where
  "capitalizeFirstLetter str = toUpperCase (take 1 str) @ drop 1 str"

text \<open>The truth value of an optional string: absent and the empty string are false.\<close>

fun truthy :: "string option \<Rightarrow> bool" where
  "truthy None = False"
| "truthy (Some s) = (s \<noteq> [])"

text \<open>One element of \<^verbatim>\<open>selectFields\<close> in \<^verbatim>\<open>createQuery\<close>.\<close>

definition selectField :: "registry \<Rightarrow> table_name \<Rightarrow> selectEntry \<Rightarrow> error + Sql" where
  \<open>selectField defs t field =
     bindE (getColumnDefinition defs t (s_column field)) (\<lambda>safeColumn.
       Inr (if truthy (s_agg field)
            then raw (the (s_agg field)) @ raw ''('' @ getInternalSql safeColumn
                 @ raw '') as "'' @ raw (toLowerCase (the (s_agg field)))
                 @ raw (capitalizeFirstLetter (name safeColumn)) @ raw ''"''
            else getInternalSql safeColumn @ raw '' as "'' @ raw (name safeColumn)
                 @ raw ''"''))\<close>

definition createAggregatedColumn ::
  "registry \<Rightarrow> table_name \<Rightarrow> string \<Rightarrow> string option \<Rightarrow> error + Sql" where
  "createAggregatedColumn defs t column agg =
     bindE (getColumnDefinition defs t column) (\<lambda>colDef.
       Inr (if truthy agg
            then raw (the agg) @ raw ''('' @ getInternalSql colDef @ raw '')''
            else getInternalSql colDef))"

text \<open>One element of \<^verbatim>\<open>orderBys\<close> in \<^verbatim>\<open>prepareOrderByString\<close>.\<close>

definition orderByTerm :: "registry \<Rightarrow> table_name \<Rightarrow> orderByEntry \<Rightarrow> error + Sql" where
  "orderByTerm defs t ob =
     bindE (createAggregatedColumn defs t (o_column ob) (o_agg ob))
       (\<lambda>c. Inr (c @ raw '' '' @ raw (o_direction ob)))"

definition prepareOrderByString ::
  "registry \<Rightarrow> table_name \<Rightarrow> orderByEntry list option \<Rightarrow> bool \<Rightarrow> error + Sql" where
  \<open>prepareOrderByString defs t orderBy hasCte =
     bindE (mapE (orderByTerm defs t) (orEmpty orderBy)) (\<lambda>orderBys.
       let addedCte = (if hasCte then raw ''date_series."date" ASC'' # orderBys
                       else orderBys)
       in Inr (if length addedCte > 0 then raw '' ORDER BY '' @ join addedCte '', ''
               else empty_sql))\<close>

text \<open>One element of \<^verbatim>\<open>filters\<close> in \<^verbatim>\<open>prepareFilterString\<close>.\<close>

definition filterSql ::
  "table_name \<Rightarrow> ColumnDefinition list \<Rightarrow> singleFilter \<Rightarrow> error + Sql" where
  \<open>filterSql t columnDefinitions flt =
     (case find (\<lambda>x. name x = f_column flt) columnDefinitions of
        None \<Rightarrow> Inl (ColumnNotFound (f_column flt))
      | Some column \<Rightarrow>
          Inr (if f_type flt = ''datetime''
               then getInternalSql column @ raw '' '' @ raw (f_operator flt) @ raw '' ''
                    @ bound (f_value flt)
               else getInternalSql column @ raw '' '' @ raw (f_operator flt) @ raw '' ''
                    @ bound (f_value flt) @ raw '' ''
                    @ (if name column = ''type'' \<and> t = Observations
                       then raw ''::"ObservationType"'' else empty_sql)))\<close>

definition prepareFilterString ::
  "table_name \<Rightarrow> singleFilter list \<Rightarrow> ColumnDefinition list \<Rightarrow> error + Sql" where
  "prepareFilterString t fltr columnDefinitions =
     bindE (mapE (filterSql t columnDefinitions) fltr) (\<lambda>filters.
       Inr (join filters '' AND ''))"

definition prepareGroupBy :: "registry \<Rightarrow> table_name \<Rightarrow> groupByEntry \<Rightarrow> error + Sql" where
  \<open>prepareGroupBy defs t groupBy =
     bindE (getColumnDefinition defs t (g_column groupBy)) (\<lambda>colDef.
       let internalColumn = getInternalSql colDef
       in Inr (if g_type groupBy = ''datetime'' then raw ''date_series."date"''
               else internalColumn))\<close>

definition isTimeRangeFilter :: "singleFilter \<Rightarrow> bool" where
  "isTimeRangeFilter flt = (f_type flt = ''datetime'')"

text \<open>The value \<^verbatim>\<open>{ cte, from, column }\<close> returned by \<^verbatim>\<open>createDateRangeCte\<close>.\<close>

record bucketPlan =
  cte :: Sql
  cte_from :: Sql
  cte_column :: ColumnDefinition

text \<open>The predicates of the builder's \<^verbatim>\<open>filter\<close> and \<^verbatim>\<open>find\<close> calls.\<close>

definition isDatetimeGroupBy :: "groupByEntry \<Rightarrow> bool" where
  "isDatetimeGroupBy x = (g_type x = ''datetime'')"

definition isLowerBound :: "singleFilter \<Rightarrow> bool" where
  "isLowerBound x = (f_operator x = ''>'' \<or> f_operator x = ''>='')"

definition isUpperBound :: "singleFilter \<Rightarrow> bool" where
  "isUpperBound x = (f_operator x = ''<'' \<or> f_operator x = ''<='')"

definition minDateColumn :: "singleFilter list \<Rightarrow> singleFilter option" where
  "minDateColumn filters =
     (let dateTimeFilters = filter isTimeRangeFilter filters
      in if length dateTimeFilters > 1 then find isLowerBound dateTimeFilters else None)"

definition maxDateColumn :: "singleFilter list \<Rightarrow> singleFilter option" where
  "maxDateColumn filters =
     (let dateTimeFilters = filter isTimeRangeFilter filters
      in if length dateTimeFilters > 1 then find isUpperBound dateTimeFilters else None)"

definition cteString :: "val \<Rightarrow> val \<Rightarrow> string \<Rightarrow> Sql" where
  "cteString lo hi unit =
     raw ''\<newline>      WITH date_series AS (\<newline>        SELECT generate_series(''
     @ bound lo @ raw '', '' @ bound hi @ raw '', '1 '' @ raw unit
     @ raw ([CHR 0x27] @ '') as date\<newline>      )\<newline>    '')"

definition modifiedFrom :: "registry \<Rightarrow> table_name \<Rightarrow> string \<Rightarrow> ColumnDefinition \<Rightarrow> Sql" where
  \<open>modifiedFrom defs t unit startColumn =
     raw '' FROM date_series LEFT JOIN '' @ getTableSql defs t
     @ raw ('' ON DATE_TRUNC('' @ [CHR 0x27]) @ raw unit @ raw ([CHR 0x27] @ '', '')
     @ getInternalSql startColumn @ raw ('') = DATE_TRUNC('' @ [CHR 0x27]) @ raw unit
     @ raw ([CHR 0x27] @ '', date_series."date")'')\<close>

definition createDateRangeCte ::
  "registry \<Rightarrow> table_name \<Rightarrow> singleFilter list \<Rightarrow> groupByEntry list
     \<Rightarrow> error + bucketPlan option" where
  "createDateRangeCte defs t filters groupBy =
     (case filter isDatetimeGroupBy groupBy of
        [] \<Rightarrow> Inr None
      | [groupByColumn] \<Rightarrow>
          (case (g_temporalUnit groupByColumn, minDateColumn filters, maxDateColumn filters) of
             (Some unit, Some lo, Some hi) \<Rightarrow>
               if f_column lo \<noteq> g_column groupByColumn
                  \<or> f_column hi \<noteq> g_column groupByColumn
               then Inl MismatchedRangeColumn
               else bindE (getColumnDefinition defs t (f_column lo)) (\<lambda>startColumn.
                      Inr (Some \<lparr> cte = cteString (f_value lo) (f_value hi) unit,
                                  cte_from = modifiedFrom defs t unit startColumn,
                                  cte_column = startColumn \<rparr>))
           | _ \<Rightarrow> Inr None)
      | _ \<Rightarrow> Inl MultipleDatetimeGroupBy)"

text \<open>The pieces of \<^verbatim>\<open>createQuery\<close>, in the order the builder computes them.\<close>

definition fromString :: "registry \<Rightarrow> table_name \<Rightarrow> bucketPlan option \<Rightarrow> Sql" where
  "fromString defs t plan =
     (case plan of Some p \<Rightarrow> cte_from p | None \<Rightarrow> raw '' FROM '' @ getTableSql defs t)"

definition seriesColumn :: "bucketPlan \<Rightarrow> Sql" where
  \<open>seriesColumn p = raw ''date_series."date" as "'' @ raw (name (cte_column p)) @ raw ''"''\<close>

definition selectFields ::
  "registry \<Rightarrow> query \<Rightarrow> bucketPlan option \<Rightarrow> error + Sql list" where
  "selectFields defs qry plan =
     bindE (mapE (selectField defs (q_from qry)) (q_select qry)) (\<lambda>sel.
       Inr (case plan of Some p \<Rightarrow> seriesColumn p # sel | None \<Rightarrow> sel))"

definition groupString :: "registry \<Rightarrow> query \<Rightarrow> bucketPlan option \<Rightarrow> error + Sql" where
  "groupString defs qry plan =
     (if nonEmpty (q_groupBy qry) \<or> plan \<noteq> None
      then bindE (mapE (prepareGroupBy defs (q_from qry)) (orEmpty (q_groupBy qry)))
             (\<lambda>groupByFields.
                Inr (if length groupByFields > 0
                     then raw '' GROUP BY '' @ join groupByFields '', '' else empty_sql))
      else Inr empty_sql)"

definition selectString :: "Sql list \<Rightarrow> Sql" where
  "selectString sel =
     (if length sel > 0 then raw '' SELECT '' @ join sel '', '' else empty_sql)"

definition filterString :: "registry \<Rightarrow> query \<Rightarrow> bucketPlan option \<Rightarrow> error + Sql" where
  "filterString defs qry plan =
     (if nonEmpty (q_filter qry)
      then bindE (prepareFilterString (q_from qry) (orEmpty (q_filter qry))
                    (columns (defs (q_from qry))))
             (\<lambda>fs. Inr (raw '' '' @ (if plan \<noteq> None then raw '' AND '' else raw '' WHERE '')
                         @ raw '' '' @ fs))
      else Inr empty_sql)"

text \<open>\<^verbatim>\<open>query.limit ? ... : Prisma.empty\<close>: the number 0 is false.\<close>

definition limitString :: "nat option \<Rightarrow> Sql" where
  "limitString lmt =
     (case lmt of
        Some n \<Rightarrow> if n \<noteq> 0 then raw '' LIMIT '' @ bound (NumberValue (real n)) else empty_sql
      | None \<Rightarrow> empty_sql)"

definition createQuery :: "registry \<Rightarrow> query \<Rightarrow> error + Sql" where
  "createQuery defs qry =
     bindE (createDateRangeCte defs (q_from qry) (orEmpty (q_filter qry))
              (orEmpty (q_groupBy qry))) (\<lambda>plan.
     bindE (selectFields defs qry plan) (\<lambda>sel.
     bindE (groupString defs qry plan) (\<lambda>groupStr.
     bindE (prepareOrderByString defs (q_from qry) (q_orderBy qry) (plan \<noteq> None))
       (\<lambda>orderByStr.
     bindE (filterString defs qry plan) (\<lambda>filterStr.
       Inr ((case plan of Some p \<Rightarrow> cte p | None \<Rightarrow> empty_sql)
            @ selectString sel @ fromString defs (q_from qry) plan @ filterStr
            @ groupStr @ orderByStr @ limitString (q_limit qry) @ raw '';''))))))"

definition getMandatoryFilter :: "table_name \<Rightarrow> string \<Rightarrow> singleFilter list" where
  "getMandatoryFilter t projectId =
     (let observationFilter = \<lparr> f_type = ''string'', f_column = ''observationsProjectId'',
                                 f_operator = ''='', f_value = StringValue projectId \<rparr>;
          traceFilter = \<lparr> f_type = ''string'', f_column = ''tracesProjectId'',
                           f_operator = ''='', f_value = StringValue projectId \<rparr>
      in case t of
           Traces \<Rightarrow> [traceFilter]
         | Traces_scores \<Rightarrow> [traceFilter]
         | Traces_observations \<Rightarrow> [traceFilter, observationFilter]
         | Traces_parent_observation_scores \<Rightarrow> [traceFilter, observationFilter]
         | Observations \<Rightarrow> [observationFilter])"

definition enrichAndCreateQuery :: "registry \<Rightarrow> string \<Rightarrow> query \<Rightarrow> error + Sql" where
  "enrichAndCreateQuery defs projectId qry =
     createQuery defs
       (qry \<lparr> q_filter := Some (orEmpty (q_filter qry)
                                 @ getMandatoryFilter (q_from qry) projectId) \<rparr>)"

section \<open>Compile results and a fixture registry\<close>

text \<open>A compile attempt yields an error or a statement; these read its two halves.\<close>

definition statement_text :: "error + Sql \<Rightarrow> error + string" where
  "statement_text r = map_sum id sql_text r"

definition statement_values :: "error + Sql \<Rightarrow> error + val list" where
  "statement_values r = map_sum id sql_values r"

text \<open>
  Modelled from the spec: the registry \<^verbatim>\<open>tableDefinitions\<close> is declared outside the
  builder. This fixture registry gives each logical table a physical source and a few
  columns, the tenant columns among them; it is used to run the builder on concrete
  queries. Every general statement below holds for an arbitrary registry.
\<close>

definition fixtureDefinitions :: registry where
  \<open>fixtureDefinitions t =
     (case t of
        Traces \<Rightarrow>
          \<lparr> table = ''traces t'',
            columns = [\<lparr> name = ''id'', internal = ''t."id"'' \<rparr>,
                       \<lparr> name = ''tracesProjectId'', internal = ''t."project_id"'' \<rparr>,
                       \<lparr> name = ''timestamp'', internal = ''t."timestamp"'' \<rparr>,
                       \<lparr> name = ''version'', internal = ''t."version"'' \<rparr>] \<rparr>
      | Observations \<Rightarrow>
          \<lparr> table = ''observations o'',
            columns = [\<lparr> name = ''id'', internal = ''o."id"'' \<rparr>,
                       \<lparr> name = ''observationsProjectId'', internal = ''o."project_id"'' \<rparr>,
                       \<lparr> name = ''type'', internal = ''o."type"'' \<rparr>,
                       \<lparr> name = ''startTime'', internal = ''o."start_time"'' \<rparr>,
                       \<lparr> name = ''totalTokens'', internal = ''o."total_tokens"'' \<rparr>] \<rparr>
      | Traces_observations \<Rightarrow>
          \<lparr> table = ''traces t LEFT JOIN observations o ON t.id = o.trace_id'',
            columns = [\<lparr> name = ''traceId'', internal = ''t."id"'' \<rparr>,
                       \<lparr> name = ''tracesProjectId'', internal = ''t."project_id"'' \<rparr>,
                       \<lparr> name = ''observationsProjectId'', internal = ''o."project_id"'' \<rparr>,
                       \<lparr> name = ''timestamp'', internal = ''t."timestamp"'' \<rparr>,
                       \<lparr> name = ''totalTokens'', internal = ''o."total_tokens"'' \<rparr>] \<rparr>
      | Traces_scores \<Rightarrow>
          \<lparr> table = ''traces t JOIN scores s ON t.id = s.trace_id'',
            columns = [\<lparr> name = ''traceId'', internal = ''t."id"'' \<rparr>,
                       \<lparr> name = ''tracesProjectId'', internal = ''t."project_id"'' \<rparr>,
                       \<lparr> name = ''timestamp'', internal = ''t."timestamp"'' \<rparr>,
                       \<lparr> name = ''value'', internal = ''s."value"'' \<rparr>] \<rparr>
      | Traces_parent_observation_scores \<Rightarrow>
          \<lparr> table = ''traces t LEFT JOIN observations o ON t.id = o.trace_id LEFT JOIN scores s ON o.id = s.observation_id'',
            columns = [\<lparr> name = ''traceId'', internal = ''t."id"'' \<rparr>,
                       \<lparr> name = ''tracesProjectId'', internal = ''t."project_id"'' \<rparr>,
                       \<lparr> name = ''observationsProjectId'', internal = ''o."project_id"'' \<rparr>,
                       \<lparr> name = ''timestamp'', internal = ''t."timestamp"'' \<rparr>,
                       \<lparr> name = ''value'', internal = ''s."value"'' \<rparr>] \<rparr>)\<close>

text \<open>
  A bucketed query: one datetime group-by on \<open>timestamp\<close> by day and a matched pair of
  range filters on the same column (2024-01-01 and 2024-02-01 as epoch milliseconds).
\<close>

definition lowerFilter :: singleFilter where
  "lowerFilter = \<lparr> f_type = ''datetime'', f_column = ''timestamp'', f_operator = ''>='',
                   f_value = DateValue 1704067200000 \<rparr>"

definition upperFilter :: singleFilter where
  "upperFilter = \<lparr> f_type = ''datetime'', f_column = ''timestamp'', f_operator = ''<'',
                   f_value = DateValue 1706745600000 \<rparr>"

definition bucketQuery :: query where
  "bucketQuery =
     \<lparr> q_from = Traces,
       q_filter = Some [lowerFilter, upperFilter],
       q_groupBy = Some [\<lparr> g_type = ''datetime'', g_column = ''timestamp'',
                            g_temporalUnit = Some ''day'' \<rparr>,
                         \<lparr> g_type = ''string'', g_column = ''version'',
                            g_temporalUnit = None \<rparr>],
       q_select = [\<lparr> s_column = ''id'', s_agg = Some ''COUNT'' \<rparr>],
       q_orderBy = Some [\<lparr> o_column = ''id'', o_direction = ''DESC'', o_agg = Some ''COUNT'' \<rparr>],
       q_limit = Some 0 \<rparr>"

section \<open>Notions of the specification and example queries\<close>

text \<open>
  The tenant columns as the specification words them: the trace entity's for
  \<open>traces\<close> and \<open>traces_scores\<close>, the observation entity's for \<open>observations\<close>, both
  for the two join tables.
\<close>

definition tenantColumns :: "table_name \<Rightarrow> string list" where
  "tenantColumns t =
     (case t of
        Traces \<Rightarrow> [''tracesProjectId'']
      | Traces_scores \<Rightarrow> [''tracesProjectId'']
      | Observations \<Rightarrow> [''observationsProjectId'']
      | Traces_observations \<Rightarrow> [''tracesProjectId'', ''observationsProjectId'']
      | Traces_parent_observation_scores \<Rightarrow> [''tracesProjectId'', ''observationsProjectId''])"

definition tenantFilter :: "string \<Rightarrow> string \<Rightarrow> singleFilter" where
  "tenantFilter projectId c =
     \<lparr> f_type = ''string'', f_column = c, f_operator = ''='', f_value = StringValue projectId \<rparr>"

text \<open>The values a bucket plan binds in its series bounds; none without a plan.\<close>

definition cteValues :: "error + bucketPlan option \<Rightarrow> val list" where
  "cteValues r = (case r of Inr (Some p) \<Rightarrow> sql_values (cte p) | _ \<Rightarrow> [])"

text \<open>
  Variants of the bucketed query: two datetime group-bys; an upper bound on another
  column than the group-by's; a lower bound alone.
\<close>

definition multiDatetimeQuery :: query where
  "multiDatetimeQuery =
     bucketQuery \<lparr> q_groupBy := Some [\<lparr> g_type = ''datetime'', g_column = ''timestamp'',
                                         g_temporalUnit = Some ''day'' \<rparr>,
                                      \<lparr> g_type = ''datetime'', g_column = ''timestamp'',
                                         g_temporalUnit = Some ''month'' \<rparr>] \<rparr>"

definition mismatchedQuery :: query where
  "mismatchedQuery =
     bucketQuery \<lparr> q_filter := Some [lowerFilter, upperFilter \<lparr> f_column := ''version'' \<rparr>] \<rparr>"

definition singleBoundQuery :: query where
  "singleBoundQuery =
     \<lparr> q_from = Traces,
       q_filter = Some [lowerFilter],
       q_groupBy = Some [\<lparr> g_type = ''datetime'', g_column = ''timestamp'',
                            g_temporalUnit = Some ''day'' \<rparr>],
       q_select = [\<lparr> s_column = ''id'', s_agg = Some ''COUNT'' \<rparr>],
       q_orderBy = None,
       q_limit = None \<rparr>"

text \<open>
  The alias rule as the specification words it: the aggregation name lower-cased,
  followed by the column name with its first letter capitalised; the column name itself
  when there is no aggregation.
\<close>

definition aliasOf :: "string option \<Rightarrow> string \<Rightarrow> string" where
  "aliasOf agg column =
     (if truthy agg then toLowerCase (the agg) @ capitalizeFirstLetter column else column)"

text \<open>
  The single-column query of the specification's example, stated with its words:
  \<open>join_text\<close> concatenates strings with a separator, \<open>tenantPredicate\<close> is the
  conjunction of the tenant comparisons of a table, and \<open>tenantColumnsKnown\<close> says the
  registry resolves the tenant columns of the table.
\<close>

fun join_text :: "string list \<Rightarrow> string \<Rightarrow> string" where
  "join_text [] sep = []"
| "join_text [x] sep = x"
| "join_text (x # y # ys) sep = x @ sep @ join_text (y # ys) sep"

definition tenantPredicate :: "registry \<Rightarrow> table_name \<Rightarrow> string" where
  "tenantPredicate defs t =
     join_text
       (map (\<lambda>tc. case find (\<lambda>x. name x = tc) (columns (defs t)) of
                    Some col \<Rightarrow> internal col @ '' = ? ''
                  | None \<Rightarrow> [])
            (tenantColumns t))
       '' AND ''"

definition tenantColumnsKnown :: "registry \<Rightarrow> table_name \<Rightarrow> bool" where
  "tenantColumnsKnown defs t =
     list_all (\<lambda>tc. find (\<lambda>x. name x = tc) (columns (defs t)) \<noteq> None) (tenantColumns t)"

text \<open>A query of one plain column on a join table.\<close>

definition plainQuery :: query where
  "plainQuery =
     \<lparr> q_from = Traces_observations, q_filter = None, q_groupBy = None,
       q_select = [\<lparr> s_column = ''traceId'', s_agg = None \<rparr>],
       q_orderBy = None, q_limit = None \<rparr>"

text \<open>
  What a GROUP BY field is for a group-by entry: the series column for a datetime entry,
  the registry's expression of the column for any other.
\<close>

definition groupByFieldOk :: "registry \<Rightarrow> table_name \<Rightarrow> groupByEntry \<Rightarrow> Sql \<Rightarrow> bool" where
  \<open>groupByFieldOk defs t ge s =
     (if isDatetimeGroupBy ge then s = raw ''date_series."date"''
      else (case getColumnDefinition defs t (g_column ge) of
              Inr col \<Rightarrow> s = raw (internal col)
            | Inl e \<Rightarrow> False))\<close>



text \<open>
  A filter list without a bounded range, in the specification's words: fewer than two
  datetime filters, or no filter with operator \<open>>\<close> or \<open>>=\<close>, or none with operator
  \<open><\<close> or \<open><=\<close>.
\<close>

definition noBoundedRange :: "singleFilter list \<Rightarrow> bool" where
  "noBoundedRange fs =
     (length (filter isTimeRangeFilter fs) < 2
      \<or> find isLowerBound fs = None
      \<or> find isUpperBound fs = None)"

section \<open>The result normalizer\<close>

text \<open>
  A cell of a driver row, by the runtime tests of \<^verbatim>\<open>outputParser\<close>: a bigint, a
  number, a \<^verbatim>\<open>Decimal\<close>, a string, a \<^verbatim>\<open>Date\<close> (its epoch milliseconds), null, or
  a value of any other type, which carries its \<^verbatim>\<open>typeof\<close>. The number type \<open>'n\<close> and
  the decimal type \<open>'d\<close> are parameters, and so are the two conversions the parser calls,
  \<^verbatim>\<open>Number(val)\<close> of the runtime and \<^verbatim>\<open>val.toNumber()\<close> of the decimal library.
  A row is the list of its keys and cells in enumeration order.
\<close>

datatype ('n, 'd) rawCell =
  BigIntCell int
  | NumberCell 'n
  | DecimalCell 'd
  | StringCell string
  | DateCell int
  | NullCell
  | OtherCell string

datatype 'n cell = NumberOut 'n | StringOut string | DateOut int | NullOut

datatype parseError = UnknownType string

fun parseCell :: "(int \<Rightarrow> 'n) \<Rightarrow> ('d \<Rightarrow> 'n) \<Rightarrow> ('n, 'd) rawCell \<Rightarrow> parseError + 'n cell" where
  "parseCell toNumber decimalToNumber (BigIntCell v) = Inr (NumberOut (toNumber v))"
| "parseCell toNumber decimalToNumber (NumberCell v) = Inr (NumberOut v)"
| "parseCell toNumber decimalToNumber (DecimalCell v) = Inr (NumberOut (decimalToNumber v))"
| "parseCell toNumber decimalToNumber (StringCell v) = Inr (StringOut v)"
| "parseCell toNumber decimalToNumber (DateCell v) = Inr (DateOut v)"
| "parseCell toNumber decimalToNumber NullCell = Inr NullOut"
| "parseCell toNumber decimalToNumber (OtherCell ty) = Inl (UnknownType ty)"

text \<open>The body of the \<^verbatim>\<open>for (const key in row)\<close> loop, and the loop over the rows.\<close>

definition parseEntry ::
  "(int \<Rightarrow> 'n) \<Rightarrow> ('d \<Rightarrow> 'n) \<Rightarrow> string \<times> ('n, 'd) rawCell
     \<Rightarrow> parseError + string \<times> 'n cell" where
  "parseEntry toNumber decimalToNumber kv =
     bindE (parseCell toNumber decimalToNumber (snd kv)) (\<lambda>v. Inr (fst kv, v))"

definition outputParser ::
  "(int \<Rightarrow> 'n) \<Rightarrow> ('d \<Rightarrow> 'n) \<Rightarrow> (string \<times> ('n, 'd) rawCell) list list
     \<Rightarrow> parseError + (string \<times> 'n cell) list list" where
  "outputParser toNumber decimalToNumber output =
     mapE (\<lambda>row. mapE (parseEntry toNumber decimalToNumber) row) output"

text \<open>A cell of none of the six recognised types.\<close>

fun isOther :: "('n, 'd) rawCell \<Rightarrow> bool" where
  "isOther (OtherCell ty) = True"
| "isOther _ = False"

text \<open>Two driver rows; every number in them is exactly a floating-point value.\<close>

definition exampleRows :: "(string \<times> (real, rat) rawCell) list list" where
  "exampleRows =
     [[(''avg'', DecimalCell (21 / 2)), (''count'', BigIntCell 42), (''name'', NullCell)],
      [(''avg'', NumberCell (3 / 4)), (''name'', StringCell ''chat''),
       (''day'', DateCell 1704067200000)]]"

section \<open>Queries that differ in literal values only\<close>

text \<open>
  The shape of a filter is what remains when its value is dropped. Two queries have the
  same shape when they agree on everything but the values of their filters and the
  number of their limit: same table, selection, group-by, order-by, the same filter
  shapes in the same order, and a limit in both or in neither.
\<close>

definition filterShape :: "singleFilter \<Rightarrow> string \<times> string \<times> string" where
  "filterShape f = (f_type f, f_column f, f_operator f)"

definition sameShape :: "query \<Rightarrow> query \<Rightarrow> bool" where
  "sameShape a b =
     (q_from a = q_from b \<and> q_select a = q_select b \<and> q_groupBy a = q_groupBy b
      \<and> q_orderBy a = q_orderBy b
      \<and> map_option (map filterShape) (q_filter a) = map_option (map filterShape) (q_filter b)
      \<and> (q_limit a = None) = (q_limit b = None))"

text \<open>Whether the builder emits a LIMIT clause: the limit is present and not zero.\<close>

definition limitEmitted :: "nat option \<Rightarrow> bool" where
  "limitEmitted lmt = (case lmt of Some n \<Rightarrow> n \<noteq> 0 | None \<Rightarrow> False)"

text \<open>Two plans with the same series text, the same FROM clause and the same column.\<close>

definition planRel :: "bucketPlan \<Rightarrow> bucketPlan \<Rightarrow> bool" where
  "planRel p p' =
     (sql_text (cte p) = sql_text (cte p') \<and> cte_from p = cte_from p'
      \<and> cte_column p = cte_column p')"

text \<open>Two queries of the same shape, one with limit 0 and one with limit 5.\<close>

definition zeroLimitQuery :: query where
  "zeroLimitQuery =
     \<lparr> q_from = Traces,
       q_filter = Some [\<lparr> f_type = ''string'', f_column = ''version'', f_operator = ''='',
                          f_value = StringValue ''v1'' \<rparr>],
       q_groupBy = None,
       q_select = [\<lparr> s_column = ''id'', s_agg = None \<rparr>],
       q_orderBy = None,
       q_limit = Some 0 \<rparr>"

definition fiveLimitQuery :: query where
  "fiveLimitQuery =
     zeroLimitQuery \<lparr> q_filter := Some [\<lparr> f_type = ''string'', f_column = ''version'',
                                          f_operator = ''='', f_value = StringValue ''v2'' \<rparr>],
                      q_limit := Some 5 \<rparr>"

section \<open>Basic facts\<close>

lemma bindE_Inr [simp]: "bindE (Inr x) f = f x" by (simp add: bindE_def)
lemma bindE_Inl [simp]: "bindE (Inl e) f = Inl e" by (simp add: bindE_def)
lemma bindE_eq_Inr: "bindE m f = Inr y \<longleftrightarrow> (\<exists>x. m = Inr x \<and> f x = Inr y)"
  by (cases m) simp_all

lemma mapE_Inr: "mapE f xs = Inr ys \<longleftrightarrow> list_all2 (\<lambda>x y. f x = Inr y) xs ys"
proof (induction xs arbitrary: ys)
  case Nil
  show ?case by auto
next
  case (Cons x xs)
  show ?case
    by (cases ys) (auto simp: bindE_eq_Inr Cons.IH)
qed

lemma mapE_map:
  assumes "mapE f xs = Inr ys"
    and "\<And>x y. x \<in> set xs \<Longrightarrow> f x = Inr y \<Longrightarrow> h y = g x"
  shows "map h ys = map g xs"
proof -
  from assms(1) have "list_all2 (\<lambda>x y. f x = Inr y) xs ys" by (simp add: mapE_Inr)
  then show ?thesis using assms(2)
    by (induction rule: list_all2_induct) auto
qed

lemma mapE_append:
  "mapE f (xs @ ys) = bindE (mapE f xs) (\<lambda>us. bindE (mapE f ys) (\<lambda>vs. Inr (us @ vs)))"
proof (induction xs)
  case Nil
  show ?case by (cases "mapE f ys") simp_all
next
  case (Cons x xs)
  show ?case
    by (cases "f x"; cases "mapE f xs"; cases "mapE f ys") (simp_all add: Cons.IH)
qed

lemma sql_text_append [simp]: "sql_text (a @ b) = sql_text a @ sql_text b"
  by (simp add: sql_text_def)
lemma sql_values_append [simp]: "sql_values (a @ b) = sql_values a @ sql_values b"
  by (simp add: sql_values_def)
lemma sql_text_raw [simp]: "sql_text (raw s) = s" by (simp add: sql_text_def raw_def)
lemma sql_values_raw [simp]: "sql_values (raw s) = []" by (simp add: sql_values_def raw_def)
lemma sql_text_bound [simp]: "sql_text (bound v) = ''?''" by (simp add: sql_text_def bound_def)
lemma sql_values_bound [simp]: "sql_values (bound v) = [v]" by (simp add: sql_values_def bound_def)
lemma sql_text_empty [simp]: "sql_text empty_sql = []" by (simp add: sql_text_def empty_sql_def)
lemma sql_values_empty [simp]: "sql_values empty_sql = []" by (simp add: sql_values_def empty_sql_def)
lemma sql_text_Nil [simp]: "sql_text [] = []" by (simp add: sql_text_def)
lemma sql_values_Nil [simp]: "sql_values [] = []" by (simp add: sql_values_def)

lemma sql_values_join [simp]: "sql_values (join xs sep) = concat (map sql_values xs)"
  by (induction xs sep rule: join.induct) simp_all

lemma getInternalSql_values [simp]: "sql_values (getInternalSql c) = []"
  by (simp add: getInternalSql_def)

lemma getTableSql_values [simp]: "sql_values (getTableSql defs t) = []"
  by (simp add: getTableSql_def)

lemma selectField_values: "selectField defs t f = Inr s \<Longrightarrow> sql_values s = []"
  by (auto simp: selectField_def bindE_eq_Inr)

lemma seriesColumn_values [simp]: "sql_values (seriesColumn p) = []"
  by (simp add: seriesColumn_def)

lemma concat_map_Nil: "map h ys = map (\<lambda>_. []) xs \<Longrightarrow> concat (map h ys) = []"
  by simp

lemma selectFields_values:
  assumes "selectFields defs qry plan = Inr sel"
  shows "concat (map sql_values sel) = []"
proof -
  from assms obtain sel0 where m: "mapE (selectField defs (q_from qry)) (q_select qry) = Inr sel0"
    and s: "sel = (case plan of Some p \<Rightarrow> seriesColumn p # sel0 | None \<Rightarrow> sel0)"
    by (auto simp: selectFields_def bindE_eq_Inr)
  have "map sql_values sel0 = map (\<lambda>_. []) (q_select qry)"
    using m by (rule mapE_map) (simp add: selectField_values)
  then have "concat (map sql_values sel0) = []" by simp
  then show ?thesis using s by (cases plan) simp_all
qed

lemma selectString_values [simp]: "sql_values (selectString sel) = concat (map sql_values sel)"
  by (simp add: selectString_def)

lemma prepareGroupBy_values: "prepareGroupBy defs t g = Inr s \<Longrightarrow> sql_values s = []"
  by (auto simp: prepareGroupBy_def bindE_eq_Inr Let_def)

lemma groupString_values:
  assumes "groupString defs qry plan = Inr s"
  shows "sql_values s = []"
proof (cases "nonEmpty (q_groupBy qry) \<or> plan \<noteq> None")
  case False
  with assms show ?thesis by (simp add: groupString_def)
next
  case True
  with assms obtain gs where m: "mapE (prepareGroupBy defs (q_from qry)) (orEmpty (q_groupBy qry)) = Inr gs"
    and s: "s = (if length gs > 0 then raw '' GROUP BY '' @ join gs '', '' else empty_sql)"
    by (auto simp: groupString_def bindE_eq_Inr)
  have "map sql_values gs = map (\<lambda>_. []) (orEmpty (q_groupBy qry))"
    using m by (rule mapE_map) (simp add: prepareGroupBy_values)
  then have "concat (map sql_values gs) = []" by simp
  then show ?thesis using s by simp
qed

lemma createAggregatedColumn_values:
  "createAggregatedColumn defs t c a = Inr s \<Longrightarrow> sql_values s = []"
  by (auto simp: createAggregatedColumn_def bindE_eq_Inr)

lemma prepareOrderByString_values:
  assumes "prepareOrderByString defs t ob hasCte = Inr s"
  shows "sql_values s = []"
proof -
  from assms obtain os where m: "mapE (orderByTerm defs t) (orEmpty ob) = Inr os"
    and s: "s = (let addedCte = (if hasCte then raw (''date_series.'' @ [CHR 0x22] @ ''date'' @ [CHR 0x22] @ '' ASC'') # os else os)
       in (if length addedCte > 0 then raw '' ORDER BY '' @ join addedCte '', ''
               else empty_sql))"
    by (auto simp: prepareOrderByString_def bindE_eq_Inr Let_def)
  have "map sql_values os = map (\<lambda>_. []) (orEmpty ob)"
    using m
    by (rule mapE_map) (auto simp: orderByTerm_def bindE_eq_Inr createAggregatedColumn_values)
  then have "concat (map sql_values os) = []" by simp
  then show ?thesis using s by (simp add: Let_def)
qed

lemma filterSql_values: "filterSql t cols f = Inr s \<Longrightarrow> sql_values s = [f_value f]"
  by (auto simp: filterSql_def split: option.splits if_splits)

lemma prepareFilterString_values:
  assumes "prepareFilterString t fs cols = Inr s"
  shows "sql_values s = map f_value fs"
proof -
  from assms obtain ss where m: "mapE (filterSql t cols) fs = Inr ss"
    and s: "s = join ss '' AND ''"
    by (auto simp: prepareFilterString_def bindE_eq_Inr)
  have "map sql_values ss = map (\<lambda>f. [f_value f]) fs"
    using m by (rule mapE_map) (simp add: filterSql_values)
  then have "concat (map sql_values ss) = map f_value fs"
    by (simp flip: map_map[unfolded comp_def])
  then show ?thesis using s by simp
qed

lemma filterString_values:
  assumes "filterString defs qry plan = Inr s"
  shows "sql_values s = map f_value (orEmpty (q_filter qry))"
proof (cases "nonEmpty (q_filter qry)")
  case False
  then have "orEmpty (q_filter qry) = []" by (cases "q_filter qry") simp_all
  with False assms show ?thesis by (simp add: filterString_def)
next
  case True
  with assms show ?thesis
    by (auto simp: filterString_def bindE_eq_Inr prepareFilterString_values)
qed

lemma createDateRangeCte_Some:
  assumes "createDateRangeCte defs t filters groupBy = Inr (Some p)"
  shows "\<exists>g unit lo hi.
           filter isDatetimeGroupBy groupBy = [g]
         \<and> g_temporalUnit g = Some unit
         \<and> minDateColumn filters = Some lo \<and> maxDateColumn filters = Some hi
         \<and> f_column lo = g_column g \<and> f_column hi = g_column g
         \<and> getColumnDefinition defs t (g_column g) = Inr (cte_column p)
         \<and> cte p = cteString (f_value lo) (f_value hi) unit
         \<and> cte_from p = modifiedFrom defs t unit (cte_column p)"
  using assms
  by (auto simp: createDateRangeCte_def bindE_eq_Inr
           split: list.splits option.splits if_splits)

lemma cteString_values [simp]: "sql_values (cteString lo hi unit) = [lo, hi]"
  by (simp add: cteString_def)

lemma modifiedFrom_values [simp]: "sql_values (modifiedFrom defs t unit c) = []"
  by (simp add: modifiedFrom_def)

lemma createQuery_values:
  assumes "createQuery defs qry = Inr stmt"
  shows "\<exists>plan. createDateRangeCte defs (q_from qry) (orEmpty (q_filter qry))
                   (orEmpty (q_groupBy qry)) = Inr plan
           \<and> sql_values stmt =
               (case plan of Some p \<Rightarrow> sql_values (cte p) | None \<Rightarrow> [])
               @ map f_value (orEmpty (q_filter qry)) @ sql_values (limitString (q_limit qry))"
proof -
  from assms obtain plan sel grp ord flt where
    plan: "createDateRangeCte defs (q_from qry) (orEmpty (q_filter qry))
             (orEmpty (q_groupBy qry)) = Inr plan"
    and sel: "selectFields defs qry plan = Inr sel"
    and grp: "groupString defs qry plan = Inr grp"
    and ord: "prepareOrderByString defs (q_from qry) (q_orderBy qry) (plan \<noteq> None) = Inr ord"
    and flt: "filterString defs qry plan = Inr flt"
    and stmt: "stmt = (case plan of Some p \<Rightarrow> cte p | None \<Rightarrow> empty_sql)
            @ selectString sel @ fromString defs (q_from qry) plan @ flt
            @ grp @ ord @ limitString (q_limit qry) @ raw '';''"
    unfolding createQuery_def bindE_eq_Inr by blast
  have from_v: "sql_values (fromString defs (q_from qry) plan) = []"
  proof (cases plan)
    case None
    then show ?thesis by (simp add: fromString_def)
  next
    case (Some p)
    with createDateRangeCte_Some[OF plan[unfolded Some]] show ?thesis
      by (auto simp: fromString_def)
  qed
  have "sql_values stmt =
          (case plan of Some p \<Rightarrow> sql_values (cte p) | None \<Rightarrow> [])
          @ map f_value (orEmpty (q_filter qry)) @ sql_values (limitString (q_limit qry))"
    unfolding stmt using from_v
    by (cases plan)
       (simp_all add: selectFields_values[OF sel] groupString_values[OF grp]
          prepareOrderByString_values[OF ord] filterString_values[OF flt])
  with plan show ?thesis by blast
qed

lemmas eval_defs = createQuery_def enrichAndCreateQuery_def getMandatoryFilter_def
  createDateRangeCte_def minDateColumn_def maxDateColumn_def isTimeRangeFilter_def
  isDatetimeGroupBy_def
  isLowerBound_def isUpperBound_def getColumnDefinition_def fixtureDefinitions_def
  selectFields_def selectField_def groupString_def prepareGroupBy_def
  prepareOrderByString_def orderByTerm_def createAggregatedColumn_def filterString_def
  prepareFilterString_def filterSql_def limitString_def selectString_def fromString_def
  seriesColumn_def cteString_def modifiedFrom_def getTableSql_def getInternalSql_def
  statement_text_def statement_values_def bucketQuery_def lowerFilter_def upperFilter_def
  multiDatetimeQuery_def mismatchedQuery_def singleBoundQuery_def
  toLowerCase_def toUpperCase_def toLowerCase_char_def toUpperCase_char_def
  asciiUpper_def asciiLower_def capitalizeFirstLetter_def


lemma find_in_set: "find P xs = Some x \<Longrightarrow> x \<in> set xs \<and> P x"
  by (induction xs) (auto split: if_splits)

lemma minDateColumn_in_set:
  "minDateColumn fs = Some lo \<Longrightarrow> lo \<in> set fs \<and> isTimeRangeFilter lo \<and> isLowerBound lo"
  by (auto simp: minDateColumn_def Let_def split: if_splits dest!: find_in_set)

lemma maxDateColumn_in_set:
  "maxDateColumn fs = Some hi \<Longrightarrow> hi \<in> set fs \<and> isTimeRangeFilter hi \<and> isUpperBound hi"
  by (auto simp: maxDateColumn_def Let_def split: if_splits dest!: find_in_set)

lemma count_list_member: "x \<in> set xs \<Longrightarrow> 1 \<le> count_list xs x"
  by (induction xs) auto

lemma count_list_map_member: "x \<in> set xs \<Longrightarrow> 1 \<le> count_list (map f xs) (f x)"
  by (rule count_list_member) simp



lemma two_distinct_members: "x \<in> set xs \<Longrightarrow> y \<in> set xs \<Longrightarrow> x \<noteq> y \<Longrightarrow> 1 < length xs"
  by (cases xs; cases "tl xs") auto

lemma lower_not_upper: "isLowerBound x \<Longrightarrow> \<not> isUpperBound x"
  by (auto simp: isLowerBound_def isUpperBound_def)

lemma bounds_found_two:
  assumes "find isLowerBound dts = Some lo" and "find isUpperBound dts = Some hi"
  shows "1 < length dts"
proof -
  from assms have "lo \<in> set dts" "isLowerBound lo" "hi \<in> set dts" "isUpperBound hi"
    by (auto dest: find_in_set)
  moreover from this have "lo \<noteq> hi" using lower_not_upper by blast
  ultimately show ?thesis by (blast intro: two_distinct_members)
qed

lemma createDateRangeCte_multiple:
  "1 < length (filter isDatetimeGroupBy groupBy)
   \<Longrightarrow> createDateRangeCte defs t fs groupBy = Inl MultipleDatetimeGroupBy"
  by (auto simp: createDateRangeCte_def split: list.splits)

lemma createDateRangeCte_mismatch:
  assumes "filter isDatetimeGroupBy groupBy = [g]" and "g_temporalUnit g = Some unit"
    and "find isLowerBound (filter isTimeRangeFilter fs) = Some lo"
    and "find isUpperBound (filter isTimeRangeFilter fs) = Some hi"
    and "f_column lo \<noteq> g_column g \<or> f_column hi \<noteq> g_column g"
  shows "createDateRangeCte defs t fs groupBy = Inl MismatchedRangeColumn"
proof -
  from bounds_found_two[OF assms(3,4)] have "1 < length (filter isTimeRangeFilter fs)" .
  with assms(3,4) have "minDateColumn fs = Some lo" "maxDateColumn fs = Some hi"
    by (simp_all add: minDateColumn_def maxDateColumn_def)
  with assms(1,2,5) show ?thesis
    by (auto simp: createDateRangeCte_def)
qed

lemma mandatory_not_datetime:
  "filter isTimeRangeFilter (getMandatoryFilter t projectId) = []"
  by (cases t) (simp_all add: getMandatoryFilter_def isTimeRangeFilter_def)

lemma createQuery_plan_error:
  "createDateRangeCte defs (q_from qry) (orEmpty (q_filter qry)) (orEmpty (q_groupBy qry))
     = Inl e \<Longrightarrow> createQuery defs qry = Inl e"
  by (simp add: createQuery_def)

lemma sql_text_join: "sql_text (join xs sep) = join_text (map sql_text xs) sep"
  by (induction xs sep rule: join.induct) simp_all

lemma find_name: "find (\<lambda>x. name x = c) cols = Some col \<Longrightarrow> name col = c"
  by (auto dest: find_in_set)

lemma getColumnDefinition_name: "getColumnDefinition defs t c = Inr col \<Longrightarrow> name col = c"
  by (auto simp: getColumnDefinition_def split: option.splits dest: find_name)

lemma nonEmpty_orEmpty: "nonEmpty x \<longleftrightarrow> orEmpty x \<noteq> []"
  by (cases x) simp_all



lemma filterSql_tenant:
  assumes "find (\<lambda>x. name x = tc) cols = Some col"
    and "tc = ''tracesProjectId'' \<or> tc = ''observationsProjectId''"
  shows "filterSql t cols (tenantFilter P tc)
           = Inr (raw (internal col) @ raw '' '' @ raw ''='' @ raw '' '' @ bound (StringValue P)
                  @ raw '' '' @ empty_sql)"
proof -
  from assms(1) have "name col = tc" by (rule find_name)
  with assms(2) have "name col \<noteq> ''type''" by auto
  with assms(1) show ?thesis
    by (simp add: filterSql_def tenantFilter_def getInternalSql_def)
qed

lemma prepareGroupBy_field:
  "prepareGroupBy defs t ge = Inr s \<Longrightarrow> groupByFieldOk defs t ge s"
  by (auto simp: prepareGroupBy_def groupByFieldOk_def isDatetimeGroupBy_def bindE_eq_Inr
        getInternalSql_def)

lemma mapE_prepareGroupBy:
  assumes "mapE (prepareGroupBy defs t) gs = Inr grp"
  shows "list_all2 (groupByFieldOk defs t) gs grp"
proof -
  from assms have "list_all2 (\<lambda>x y. prepareGroupBy defs t x = Inr y) gs grp"
    by (simp add: mapE_Inr)
  then show ?thesis
    by (rule list_all2_mono) (rule prepareGroupBy_field)
qed

lemma filter_singleton_nonempty: "filter P xs = [g] \<Longrightarrow> xs \<noteq> []"
  by auto

lemma createQuery_structure:
  assumes "createQuery defs qry = Inr stmt"
  shows "\<exists>plan sel grp ord flt.
           createDateRangeCte defs (q_from qry) (orEmpty (q_filter qry))
             (orEmpty (q_groupBy qry)) = Inr plan
         \<and> selectFields defs qry plan = Inr sel
         \<and> groupString defs qry plan = Inr grp
         \<and> prepareOrderByString defs (q_from qry) (q_orderBy qry) (plan \<noteq> None) = Inr ord
         \<and> filterString defs qry plan = Inr flt
         \<and> stmt = (case plan of Some p \<Rightarrow> cte p | None \<Rightarrow> empty_sql)
            @ selectString sel @ fromString defs (q_from qry) plan @ flt
            @ grp @ ord @ limitString (q_limit qry) @ raw '';''"
  using assms unfolding createQuery_def bindE_eq_Inr by blast

lemma groupString_nonempty:
  assumes "groupString defs qry plan = Inr grp" and "orEmpty (q_groupBy qry) \<noteq> []"
  shows "\<exists>gs. mapE (prepareGroupBy defs (q_from qry)) (orEmpty (q_groupBy qry)) = Inr gs
            \<and> grp = raw '' GROUP BY '' @ join gs '', ''"
proof -
  from assms(2) have ne: "nonEmpty (q_groupBy qry)" by (simp add: nonEmpty_orEmpty)
  with assms(1) obtain gs where
    m: "mapE (prepareGroupBy defs (q_from qry)) (orEmpty (q_groupBy qry)) = Inr gs"
    and g: "grp = (if length gs > 0 then raw '' GROUP BY '' @ join gs '', '' else empty_sql)"
    by (auto simp: groupString_def bindE_eq_Inr)
  from m have "length gs = length (orEmpty (q_groupBy qry))"
    by (simp add: mapE_Inr list_all2_lengthD)
  with assms(2) g m show ?thesis by simp
qed



lemma find_filter_None: "find P xs = None \<Longrightarrow> find P (filter Q xs) = None"
  by (induction xs) (auto split: if_splits)

lemma noBoundedRange_no_bounds:
  "noBoundedRange fs \<Longrightarrow> minDateColumn fs = None \<or> maxDateColumn fs = None"
  by (auto simp: noBoundedRange_def minDateColumn_def maxDateColumn_def Let_def find_filter_None)

lemma createDateRangeCte_no_range:
  assumes "filter isDatetimeGroupBy groupBy = [g]" and "noBoundedRange fs"
  shows "createDateRangeCte defs t fs groupBy = Inr None"
  using assms(1) noBoundedRange_no_bounds[OF assms(2)]
  by (auto simp: createDateRangeCte_def split: option.splits)

lemma mapE_Inl_iff: "(\<exists>e. mapE f xs = Inl e) \<longleftrightarrow> (\<exists>x \<in> set xs. \<exists>e. f x = Inl e)"
proof (induction xs)
  case Nil
  show ?case by simp
next
  case (Cons x xs)
  show ?case
  proof (cases "f x")
    case (Inl e)
    then show ?thesis by auto
  next
    case (Inr y)
    then show ?thesis using Cons.IH by (cases "mapE f xs") auto
  qed
qed

lemma parseCell_Inl_iff: "(\<exists>e. parseCell N D c = Inl e) \<longleftrightarrow> isOther c"
  by (cases c) simp_all

lemma parseEntry_Inl_iff: "(\<exists>e. parseEntry N D kv = Inl e) \<longleftrightarrow> isOther (snd kv)"
proof -
  have "(\<exists>e. parseEntry N D kv = Inl e) \<longleftrightarrow> (\<exists>e. parseCell N D (snd kv) = Inl e)"
    by (cases "parseCell N D (snd kv)") (simp_all add: parseEntry_def)
  then show ?thesis by (simp add: parseCell_Inl_iff)
qed

lemma parseEntry_Inr_iff:
  "parseEntry N D kv = Inr kv' \<longleftrightarrow> fst kv' = fst kv \<and> parseCell N D (snd kv) = Inr (snd kv')"
  by (cases "parseCell N D (snd kv)"; cases kv') (auto simp: parseEntry_def)

lemma statement_text_simps [simp]:
  "statement_text (Inl e) = Inl e" "statement_text (Inr s) = Inr (sql_text s)"
  by (simp_all add: statement_text_def)

lemma statement_text_eq_cases:
  assumes "statement_text r = statement_text r'"
  obtains (err) e where "r = Inl e" "r' = Inl e"
  | (ok) s s' where "r = Inr s" "r' = Inr s'" "sql_text s = sql_text s'"
  using assms by (cases r; cases r') auto

lemma nonEmpty_length: "nonEmpty x \<longleftrightarrow> 0 < length (orEmpty x)"
  by (cases x) simp_all

lemma plan_result_cases:
  assumes "rel_sum (=) R r r'"
  obtains (err) e where "r = Inl e" "r' = Inl e"
  | (ok) p p' where "r = Inr p" "r' = Inr p'" "R p p'"
  using assms by (cases r; cases r') auto

lemma filterSql_text:
  "filterShape f = filterShape f'
   \<Longrightarrow> statement_text (filterSql t cols f) = statement_text (filterSql t cols f')"
  by (simp add: filterSql_def filterShape_def getInternalSql_def split: option.splits)

lemma mapE_text:
  assumes "list_all2 (\<lambda>x y. statement_text (f x) = statement_text (f y)) xs ys"
  shows "map_sum id (map sql_text) (mapE f xs) = map_sum id (map sql_text) (mapE f ys)"
  using assms
proof (induction rule: list_all2_induct)
  case Nil
  show ?case by simp
next
  case (Cons x xs y ys)
  from Cons.hyps(1) show ?case
  proof (cases rule: statement_text_eq_cases)
    case (err e)
    then show ?thesis by simp
  next
    case (ok s s')
    with Cons.IH show ?thesis
      by (cases "mapE f xs"; cases "mapE f ys") auto
  qed
qed

lemma prepareFilterString_text:
  assumes "list_all2 (\<lambda>f f'. filterShape f = filterShape f') fs fs'"
  shows "statement_text (prepareFilterString t fs cols)
           = statement_text (prepareFilterString t fs' cols)"
proof -
  from assms have "list_all2 (\<lambda>x y. statement_text (filterSql t cols x)
                                   = statement_text (filterSql t cols y)) fs fs'"
    by (rule list_all2_mono) (rule filterSql_text)
  then have "map_sum id (map sql_text) (mapE (filterSql t cols) fs)
               = map_sum id (map sql_text) (mapE (filterSql t cols) fs')"
    by (rule mapE_text)
  then show ?thesis
    by (cases "mapE (filterSql t cols) fs"; cases "mapE (filterSql t cols) fs'")
       (auto simp: prepareFilterString_def sql_text_join)
qed

lemma list_all2_filter:
  assumes "list_all2 R xs ys" and "\<And>x y. R x y \<Longrightarrow> P x = P y"
  shows "list_all2 R (filter P xs) (filter P ys)"
  using assms by (induction rule: list_all2_induct) auto

lemma rel_option_find:
  assumes "list_all2 R xs ys" and "\<And>x y. R x y \<Longrightarrow> Q x = Q y"
  shows "rel_option R (find Q xs) (find Q ys)"
  using assms by (induction rule: list_all2_induct) auto

lemma shape_isTimeRangeFilter:
  "filterShape f = filterShape f' \<Longrightarrow> isTimeRangeFilter f = isTimeRangeFilter f'"
  by (simp add: filterShape_def isTimeRangeFilter_def)

lemma shape_isLowerBound: "filterShape f = filterShape f' \<Longrightarrow> isLowerBound f = isLowerBound f'"
  by (simp add: filterShape_def isLowerBound_def)

lemma shape_isUpperBound: "filterShape f = filterShape f' \<Longrightarrow> isUpperBound f = isUpperBound f'"
  by (simp add: filterShape_def isUpperBound_def)

lemma minDateColumn_shape:
  assumes "list_all2 (\<lambda>f f'. filterShape f = filterShape f') fs fs'"
  shows "rel_option (\<lambda>f f'. filterShape f = filterShape f') (minDateColumn fs) (minDateColumn fs')"
proof -
  from assms have d: "list_all2 (\<lambda>f f'. filterShape f = filterShape f')
                        (filter isTimeRangeFilter fs) (filter isTimeRangeFilter fs')"
    by (rule list_all2_filter) (rule shape_isTimeRangeFilter)
  then have "length (filter isTimeRangeFilter fs) = length (filter isTimeRangeFilter fs')"
    by (rule list_all2_lengthD)
  with rel_option_find[OF d shape_isLowerBound] show ?thesis
    by (simp add: minDateColumn_def)
qed

lemma maxDateColumn_shape:
  assumes "list_all2 (\<lambda>f f'. filterShape f = filterShape f') fs fs'"
  shows "rel_option (\<lambda>f f'. filterShape f = filterShape f') (maxDateColumn fs) (maxDateColumn fs')"
proof -
  from assms have d: "list_all2 (\<lambda>f f'. filterShape f = filterShape f')
                        (filter isTimeRangeFilter fs) (filter isTimeRangeFilter fs')"
    by (rule list_all2_filter) (rule shape_isTimeRangeFilter)
  then have "length (filter isTimeRangeFilter fs) = length (filter isTimeRangeFilter fs')"
    by (rule list_all2_lengthD)
  with rel_option_find[OF d shape_isUpperBound] show ?thesis
    by (simp add: maxDateColumn_def)
qed

lemma cteString_text:
  "sql_text (cteString lo hi unit) = sql_text (cteString lo' hi' unit)"
  by (simp add: cteString_def)

lemma createDateRangeCte_shape:
  assumes "list_all2 (\<lambda>f f'. filterShape f = filterShape f') fs fs'"
  shows "rel_sum (=) (rel_option planRel)
           (createDateRangeCte defs t fs groupBy) (createDateRangeCte defs t fs' groupBy)"
proof -
  note mn = minDateColumn_shape[OF assms]
  note mx = maxDateColumn_shape[OF assms]
  show ?thesis
  proof (cases "filter isDatetimeGroupBy groupBy")
    case Nil
    then show ?thesis by (simp add: createDateRangeCte_def)
  next
    case (Cons g rest)
    show ?thesis
    proof (cases rest)
      case (Cons g' rest')
      with \<open>filter isDatetimeGroupBy groupBy = g # rest\<close> show ?thesis
        by (simp add: createDateRangeCte_def)
    next
      case Nil
      with \<open>filter isDatetimeGroupBy groupBy = g # rest\<close>
      have g: "filter isDatetimeGroupBy groupBy = [g]" by simp
      show ?thesis
      proof (cases "g_temporalUnit g")
        case None
        with g show ?thesis by (simp add: createDateRangeCte_def)
      next
        case (Some unit)
        from mn show ?thesis
        proof (cases rule: option.rel_cases)
          case None
          with g Some show ?thesis by (simp add: createDateRangeCte_def)
        next
          case (Some lo lo')
          note lo = this
          from mx show ?thesis
          proof (cases rule: option.rel_cases)
            case None
            with g \<open>g_temporalUnit g = Some unit\<close> lo show ?thesis
              by (simp add: createDateRangeCte_def)
          next
            case (Some hi hi')
            from lo(3) Some(3) have c: "f_column lo = f_column lo'" "f_column hi = f_column hi'"
              by (simp_all add: filterShape_def)
            show ?thesis
              using g \<open>g_temporalUnit g = Some unit\<close> lo(1,2) Some(1,2) c
              by (cases "getColumnDefinition defs t (f_column lo')")
                 (auto simp: createDateRangeCte_def planRel_def cteString_text)
          qed
        qed
      qed
    qed
  qed
qed

lemma selectFields_plan:
  assumes "q_from a = q_from b" and "q_select a = q_select b" and "rel_option planRel p p'"
  shows "selectFields defs a p = selectFields defs b p'"
  using assms(3)
  by (cases rule: option.rel_cases)
     (simp_all add: selectFields_def assms(1,2) seriesColumn_def planRel_def)

lemma groupString_plan:
  assumes "q_from a = q_from b" and "q_groupBy a = q_groupBy b" and "rel_option planRel p p'"
  shows "groupString defs a p = groupString defs b p'"
  using assms(3)
  by (cases rule: option.rel_cases) (simp_all add: groupString_def assms(1,2))

lemma filterString_plan:
  assumes "q_from a = q_from b"
    and "list_all2 (\<lambda>f f'. filterShape f = filterShape f')
           (orEmpty (q_filter a)) (orEmpty (q_filter b))"
    and "rel_option planRel p p'"
  shows "statement_text (filterString defs a p) = statement_text (filterString defs b p')"
proof -
  let ?cols = "columns (defs (q_from a))"
  from assms(2) have "length (orEmpty (q_filter a)) = length (orEmpty (q_filter b))"
    by (rule list_all2_lengthD)
  then have ne: "nonEmpty (q_filter a) = nonEmpty (q_filter b)"
    by (simp add: nonEmpty_length)
  from assms(3) have pn: "(p \<noteq> None) = (p' \<noteq> None)"
    by (cases rule: option.rel_cases) simp_all
  from prepareFilterString_text[OF assms(2), of "q_from a" ?cols]
  show ?thesis
  proof (cases rule: statement_text_eq_cases)
    case (err e)
    then show ?thesis using ne by (simp add: filterString_def assms(1)[symmetric])
  next
    case (ok s s')
    then show ?thesis using ne pn by (simp add: filterString_def assms(1)[symmetric])
  qed
qed

lemma limitString_text:
  "limitEmitted l = limitEmitted l' \<Longrightarrow> sql_text (limitString l) = sql_text (limitString l')"
  by (auto simp: limitEmitted_def limitString_def split: option.splits)

lemma createQuery_text:
  assumes f: "q_from a = q_from b" and s: "q_select a = q_select b"
    and g: "q_groupBy a = q_groupBy b" and o: "q_orderBy a = q_orderBy b"
    and fl: "list_all2 (\<lambda>f f'. filterShape f = filterShape f')
               (orEmpty (q_filter a)) (orEmpty (q_filter b))"
    and l: "limitEmitted (q_limit a) = limitEmitted (q_limit b)"
  shows "statement_text (createQuery defs a) = statement_text (createQuery defs b)"
proof -
  let ?pa = "createDateRangeCte defs (q_from a) (orEmpty (q_filter a)) (orEmpty (q_groupBy a))"
  let ?pb = "createDateRangeCte defs (q_from b) (orEmpty (q_filter b)) (orEmpty (q_groupBy b))"
  from createDateRangeCte_shape[OF fl, of defs "q_from a" "orEmpty (q_groupBy a)"]
  have "rel_sum (=) (rel_option planRel) ?pa ?pb" by (simp add: f g)
  then show ?thesis
  proof (cases rule: plan_result_cases)
    case (err e)
    then show ?thesis by (simp add: createQuery_def)
  next
    case (ok p p')
    note plan = this
    from plan(3) have pn: "(p \<noteq> None) = (p' \<noteq> None)"
      by (cases rule: option.rel_cases) simp_all
    from plan(3) have ct: "sql_text (case p of Some x \<Rightarrow> cte x | None \<Rightarrow> empty_sql)
                         = sql_text (case p' of Some x \<Rightarrow> cte x | None \<Rightarrow> empty_sql)"
      by (cases rule: option.rel_cases) (simp_all add: planRel_def)
    from plan(3) have fr: "fromString defs (q_from a) p = fromString defs (q_from b) p'"
      by (cases rule: option.rel_cases) (simp_all add: fromString_def planRel_def f)
    note sf = selectFields_plan[OF f s plan(3), of defs]
    note gs = groupString_plan[OF f g plan(3), of defs]
    have ob: "prepareOrderByString defs (q_from a) (q_orderBy a) (p \<noteq> None)
              = prepareOrderByString defs (q_from b) (q_orderBy b) (p' \<noteq> None)"
      using pn by (simp add: f o)
    note lt = limitString_text[OF l]
    show ?thesis
    proof (cases "selectFields defs b p'")
      case (Inl e)
      then show ?thesis using plan(1,2) sf by (simp add: createQuery_def)
    next
      case sel: (Inr sel)
      show ?thesis
      proof (cases "groupString defs b p'")
        case (Inl e)
        then show ?thesis using plan(1,2) sf sel gs by (simp add: createQuery_def)
      next
        case grp: (Inr grp)
        show ?thesis
        proof (cases "prepareOrderByString defs (q_from b) (q_orderBy b) (p' \<noteq> None)")
          case (Inl e)
          then show ?thesis using plan(1,2) sf sel gs grp ob by (simp add: createQuery_def)
        next
          case ord: (Inr ord)
          from filterString_plan[OF f fl plan(3), of defs] show ?thesis
          proof (cases rule: statement_text_eq_cases)
            case (err e)
            then show ?thesis using plan(1,2) sf sel gs grp ob ord
              by (simp add: createQuery_def)
          next
            case (ok x x')
            then show ?thesis using plan(1,2) sf sel gs grp ob ord ct fr lt
              by (simp add: createQuery_def)
          qed
        qed
      qed
    qed
  qed
qed

lemma map_eq_list_all2: "map h xs = map h ys \<Longrightarrow> list_all2 (\<lambda>x y. h x = h y) xs ys"
  by (induction xs arbitrary: ys) auto

lemma sameShape_filters:
  assumes "sameShape a b"
  shows "list_all2 (\<lambda>f f'. filterShape f = filterShape f')
           (orEmpty (q_filter a)) (orEmpty (q_filter b))"
proof -
  from assms have "map_option (map filterShape) (q_filter a)
                     = map_option (map filterShape) (q_filter b)"
    by (simp add: sameShape_def)
  then have "map filterShape (orEmpty (q_filter a)) = map filterShape (orEmpty (q_filter b))"
    by (cases "q_filter a"; cases "q_filter b") simp_all
  then show ?thesis by (rule map_eq_list_all2)
qed

lemma mandatory_shape:
  "list_all2 (\<lambda>f f'. filterShape f = filterShape f')
     (getMandatoryFilter t P) (getMandatoryFilter t P')"
  by (cases t) (simp_all add: getMandatoryFilter_def filterShape_def)

section \<open>Properties of the query builder\<close>

lemma getMandatoryFilter_tenant:
  "getMandatoryFilter t projectId = map (tenantFilter projectId) (tenantColumns t)"
  by (cases t) (simp_all add: getMandatoryFilter_def tenantColumns_def tenantFilter_def)

lemma getMandatoryFilter_values:
  "map f_value (getMandatoryFilter t projectId)
     = replicate (length (tenantColumns t)) (StringValue projectId)"
  by (cases t) (simp_all add: getMandatoryFilter_def tenantColumns_def)

lemma getMandatoryFilter_nonempty: "getMandatoryFilter t projectId \<noteq> []"
  by (cases t) (simp_all add: getMandatoryFilter_def)

lemma createQuery_filter_part:
  assumes "createQuery defs qry = Inr stmt" and "orEmpty (q_filter qry) \<noteq> []"
  shows "\<exists>pre post ss.
           mapE (filterSql (q_from qry) (columns (defs (q_from qry)))) (orEmpty (q_filter qry))
             = Inr ss
         \<and> stmt = pre @ join ss '' AND '' @ post"
proof -
  from assms(1) obtain plan sel grp ord flt where
    flt: "filterString defs qry plan = Inr flt"
    and stmt: "stmt = (case plan of Some p \<Rightarrow> cte p | None \<Rightarrow> empty_sql)
            @ selectString sel @ fromString defs (q_from qry) plan @ flt
            @ grp @ ord @ limitString (q_limit qry) @ raw '';''"
    unfolding createQuery_def bindE_eq_Inr by blast
  from assms(2) have ne: "nonEmpty (q_filter qry)" by (cases "q_filter qry") simp_all
  from flt ne obtain ss where
    ss: "mapE (filterSql (q_from qry) (columns (defs (q_from qry)))) (orEmpty (q_filter qry))
           = Inr ss"
    and f: "flt = raw '' '' @ (if plan \<noteq> None then raw '' AND '' else raw '' WHERE '')
                 @ raw '' '' @ join ss '' AND ''"
    by (auto simp: filterString_def prepareFilterString_def bindE_eq_Inr)
  have "stmt = ((case plan of Some p \<Rightarrow> cte p | None \<Rightarrow> empty_sql)
            @ selectString sel @ fromString defs (q_from qry) plan
            @ raw '' '' @ (if plan \<noteq> None then raw '' AND '' else raw '' WHERE '') @ raw '' '')
            @ join ss '' AND '' @ (grp @ ord @ limitString (q_limit qry) @ raw '';'')"
    unfolding stmt f by simp
  with ss show ?thesis by blast
qed

text \<open>
  Claim C1. For every logical table and tenant identifier, \<^verbatim>\<open>enrichAndCreateQuery\<close>
  compiles the user's filters followed by the table's mandatory tenant filters: one
  filter per underlying entity (the trace entity's for \<open>traces\<close> and \<open>traces_scores\<close>,
  the observation entity's for \<open>observations\<close>, both for the join tables), each an
  equality on the tenant column with the tenant identifier as value. The tenant filters
  pass through the same \<open>filterSql\<close> as the user's filters, so in the parameter list the
  user's values are followed by one tenant value per entity, between the series bounds
  (if any) and the limit (if any).
\<close>

theorem tenant_filters_appended:
  assumes "enrichAndCreateQuery defs projectId qry = Inr stmt"
  shows "getMandatoryFilter (q_from qry) projectId
           = map (tenantFilter projectId) (tenantColumns (q_from qry))
       \<and> (\<exists>pre post us ts.
             mapE (filterSql (q_from qry) (columns (defs (q_from qry)))) (orEmpty (q_filter qry))
               = Inr us
           \<and> mapE (filterSql (q_from qry) (columns (defs (q_from qry))))
               (getMandatoryFilter (q_from qry) projectId) = Inr ts
           \<and> stmt = pre @ join (us @ ts) '' AND '' @ post)
       \<and> sql_values stmt =
           cteValues (createDateRangeCte defs (q_from qry)
                        (orEmpty (q_filter qry) @ getMandatoryFilter (q_from qry) projectId)
                        (orEmpty (q_groupBy qry)))
           @ map f_value (orEmpty (q_filter qry))
           @ replicate (length (tenantColumns (q_from qry))) (StringValue projectId)
           @ sql_values (limitString (q_limit qry))"
proof -
  let ?q = "qry \<lparr> q_filter := Some (orEmpty (q_filter qry)
                                 @ getMandatoryFilter (q_from qry) projectId) \<rparr>"
  let ?f = "filterSql (q_from qry) (columns (defs (q_from qry)))"
  from assms have c: "createQuery defs ?q = Inr stmt"
    by (simp add: enrichAndCreateQuery_def)
  have ne: "orEmpty (q_filter ?q) \<noteq> []" by (simp add: getMandatoryFilter_nonempty)
  from createQuery_filter_part[OF c ne] obtain pre post ss where
    ss: "mapE ?f (orEmpty (q_filter qry) @ getMandatoryFilter (q_from qry) projectId) = Inr ss"
    and stmt: "stmt = pre @ join ss '' AND '' @ post"
    by auto
  from ss obtain us ts where us: "mapE ?f (orEmpty (q_filter qry)) = Inr us"
    and ts: "mapE ?f (getMandatoryFilter (q_from qry) projectId) = Inr ts"
    and "ss = us @ ts"
    by (auto simp: mapE_append bindE_eq_Inr)
  with stmt have struct: "\<exists>pre post us ts. mapE ?f (orEmpty (q_filter qry)) = Inr us
           \<and> mapE ?f (getMandatoryFilter (q_from qry) projectId) = Inr ts
           \<and> stmt = pre @ join (us @ ts) '' AND '' @ post"
    by blast
  from createQuery_values[OF c] have
    "sql_values stmt =
           cteValues (createDateRangeCte defs (q_from qry)
                        (orEmpty (q_filter qry) @ getMandatoryFilter (q_from qry) projectId)
                        (orEmpty (q_groupBy qry)))
           @ map f_value (orEmpty (q_filter qry))
           @ replicate (length (tenantColumns (q_from qry))) (StringValue projectId)
           @ sql_values (limitString (q_limit qry))"
    by (auto simp: cteValues_def getMandatoryFilter_values split: option.splits)
  with struct show ?thesis by (simp add: getMandatoryFilter_tenant)
qed

theorem tenant_filters_appended_witness:
  "enrichAndCreateQuery fixtureDefinitions ''p1'' bucketQuery \<noteq> Inl MultipleDatetimeGroupBy
   \<and> statement_values (enrichAndCreateQuery fixtureDefinitions ''p1'' bucketQuery)
       = Inr ([DateValue 1704067200000, DateValue 1706745600000]
              @ [DateValue 1704067200000, DateValue 1706745600000]
              @ [StringValue ''p1''] @ [])"
proof -
  obtain stmt where s: "enrichAndCreateQuery fixtureDefinitions ''p1'' bucketQuery = Inr stmt"
    by (simp add: eval_defs)
  from tenant_filters_appended[OF s]
  have "sql_values stmt =
           cteValues (createDateRangeCte fixtureDefinitions (q_from bucketQuery)
                        (orEmpty (q_filter bucketQuery) @ getMandatoryFilter (q_from bucketQuery) ''p1'')
                        (orEmpty (q_groupBy bucketQuery)))
           @ map f_value (orEmpty (q_filter bucketQuery))
           @ replicate (length (tenantColumns (q_from bucketQuery))) (StringValue ''p1'')
           @ sql_values (limitString (q_limit bucketQuery))"
    by blast
  also have "\<dots> = [DateValue 1704067200000, DateValue 1706745600000]
              @ [DateValue 1704067200000, DateValue 1706745600000]
              @ [StringValue ''p1''] @ []"
    by (simp add: eval_defs cteValues_def tenantColumns_def)
  finally show ?thesis using s by (simp add: statement_values_def)
qed

text \<open>
  Claim C10. A query whose limit is 0 compiles exactly as the same query without a
  limit: the limit piece of the statement is empty, and the parameter list holds the
  series bounds and the filter values only.
\<close>

theorem zero_limit_emits_no_limit:
  assumes "q_limit qry = Some 0"
  shows "createQuery defs qry = createQuery defs (qry \<lparr> q_limit := None \<rparr>)
       \<and> limitString (q_limit qry) = empty_sql
       \<and> (\<forall>stmt. createQuery defs qry = Inr stmt \<longrightarrow>
            sql_values stmt =
              cteValues (createDateRangeCte defs (q_from qry) (orEmpty (q_filter qry))
                           (orEmpty (q_groupBy qry)))
              @ map f_value (orEmpty (q_filter qry)))"
proof -
  have l: "limitString (q_limit qry) = empty_sql"
    using assms by (simp add: limitString_def)
  have e: "createQuery defs qry = createQuery defs (qry \<lparr> q_limit := None \<rparr>)"
  proof -
    have "selectFields defs (qry \<lparr> q_limit := None \<rparr>) = selectFields defs qry"
      by (rule ext) (simp add: selectFields_def)
    moreover have "groupString defs (qry \<lparr> q_limit := None \<rparr>) = groupString defs qry"
      by (rule ext) (simp add: groupString_def)
    moreover have "filterString defs (qry \<lparr> q_limit := None \<rparr>) = filterString defs qry"
      by (rule ext) (simp add: filterString_def)
    moreover have "limitString (Some 0) = limitString None"
      by (simp add: limitString_def)
    ultimately show ?thesis
      using assms by (simp add: createQuery_def)
  qed
  have "sql_values stmt =
              cteValues (createDateRangeCte defs (q_from qry) (orEmpty (q_filter qry))
                           (orEmpty (q_groupBy qry)))
              @ map f_value (orEmpty (q_filter qry))"
    if "createQuery defs qry = Inr stmt" for stmt
    using createQuery_values[OF that] l
    by (auto simp: cteValues_def split: option.splits)
  with l e show ?thesis by blast
qed

theorem zero_limit_emits_no_limit_witness:
  "q_limit bucketQuery = Some 0
   \<and> createQuery fixtureDefinitions bucketQuery
       = createQuery fixtureDefinitions (bucketQuery \<lparr> q_limit := None \<rparr>)
   \<and> statement_values (createQuery fixtureDefinitions bucketQuery)
       = Inr [DateValue 1704067200000, DateValue 1706745600000,
              DateValue 1704067200000, DateValue 1706745600000]"
proof -
  have h: "q_limit bucketQuery = Some 0" by (simp add: bucketQuery_def)
  have v: "statement_values (createQuery fixtureDefinitions bucketQuery)
       = Inr [DateValue 1704067200000, DateValue 1706745600000,
              DateValue 1704067200000, DateValue 1706745600000]"
    by (simp add: eval_defs)
  from zero_limit_emits_no_limit[OF h, of fixtureDefinitions] h v show ?thesis by blast
qed

text \<open>
  Claim C3, as stated, fails: the builder compiles the whole filter list after the join
  condition, the two range filters included. On the bucketed query each bound is a
  parameter of the series and again a parameter of its filter predicate.
\<close>

theorem bucket_bounds_duplicated_counterexample:
  \<open>statement_values (createQuery fixtureDefinitions bucketQuery)
     = Inr [DateValue 1704067200000, DateValue 1706745600000,
            DateValue 1704067200000, DateValue 1706745600000]
   \<and> statement_text (createQuery fixtureDefinitions bucketQuery)
     = Inr (''\<newline>      WITH date_series AS (\<newline>        SELECT generate_series(?, ?, '1 day') as date\<newline>      )\<newline>     SELECT date_series."date" as "timestamp", COUNT(t."id") as "countId" FROM date_series LEFT JOIN traces t ON DATE_TRUNC('day', t."timestamp") = DATE_TRUNC('day', date_series."date")  AND  t."timestamp" >= ? AND t."timestamp" < ? GROUP BY date_series."date", t."version" ORDER BY date_series."date" ASC, COUNT(t."id") DESC;'')\<close>
  by (simp add: eval_defs)

text \<open>
  Claim C3, amended. When a bucket plan exists, the values of the lower-bound and the
  upper-bound filter are bound as the series bounds, and both filters stay in the filter
  list that is compiled after the join condition: the parameter list is the two bounds,
  then the value of every filter, then the limit, so each bound value is bound at least
  twice.
\<close>

theorem bucket_bounds_bound_in_cte_and_filter:
  assumes "createDateRangeCte defs (q_from qry) (orEmpty (q_filter qry))
             (orEmpty (q_groupBy qry)) = Inr (Some p)"
    and "createQuery defs qry = Inr stmt"
  shows "\<exists>lo hi. minDateColumn (orEmpty (q_filter qry)) = Some lo
         \<and> maxDateColumn (orEmpty (q_filter qry)) = Some hi
         \<and> lo \<in> set (orEmpty (q_filter qry)) \<and> hi \<in> set (orEmpty (q_filter qry))
         \<and> sql_values (cte p) = [f_value lo, f_value hi]
         \<and> sql_values stmt = [f_value lo, f_value hi] @ map f_value (orEmpty (q_filter qry))
                                @ sql_values (limitString (q_limit qry))
         \<and> 2 \<le> count_list (sql_values stmt) (f_value lo)
         \<and> 2 \<le> count_list (sql_values stmt) (f_value hi)"
proof -
  from createDateRangeCte_Some[OF assms(1)] obtain unit lo hi where
    lo: "minDateColumn (orEmpty (q_filter qry)) = Some lo"
    and hi: "maxDateColumn (orEmpty (q_filter qry)) = Some hi"
    and c: "cte p = cteString (f_value lo) (f_value hi) unit"
    by blast
  from c have cv: "sql_values (cte p) = [f_value lo, f_value hi]" by simp
  from lo have lo_in: "lo \<in> set (orEmpty (q_filter qry))" by (simp add: minDateColumn_in_set)
  from hi have hi_in: "hi \<in> set (orEmpty (q_filter qry))" by (simp add: maxDateColumn_in_set)
  from createQuery_values[OF assms(2)] assms(1) cv
  have v: "sql_values stmt = [f_value lo, f_value hi] @ map f_value (orEmpty (q_filter qry))
                                @ sql_values (limitString (q_limit qry))"
    by auto
  have "2 \<le> count_list (sql_values stmt) (f_value lo)"
    unfolding v using count_list_map_member[OF lo_in, of f_value] by simp
  moreover have "2 \<le> count_list (sql_values stmt) (f_value hi)"
    unfolding v using count_list_map_member[OF hi_in, of f_value] by simp
  ultimately show ?thesis using lo hi lo_in hi_in cv v by blast
qed

theorem bucket_bounds_bound_in_cte_and_filter_witness:
  "createQuery fixtureDefinitions (bucketQuery \<lparr> q_limit := Some 10 \<rparr>)
     \<noteq> Inl MismatchedRangeColumn
   \<and> statement_values (createQuery fixtureDefinitions (bucketQuery \<lparr> q_limit := Some 10 \<rparr>))
     = Inr [DateValue 1704067200000, DateValue 1706745600000,
            DateValue 1704067200000, DateValue 1706745600000, NumberValue 10]"
proof -
  let ?q = "bucketQuery \<lparr> q_limit := Some 10 \<rparr>"
  obtain p where p: "createDateRangeCte fixtureDefinitions (q_from ?q) (orEmpty (q_filter ?q))
             (orEmpty (q_groupBy ?q)) = Inr (Some p)"
    by (simp add: eval_defs)
  obtain stmt where s: "createQuery fixtureDefinitions ?q = Inr stmt"
    by (simp add: eval_defs)
  from bucket_bounds_bound_in_cte_and_filter[OF p s] obtain lo hi where
    lo: "minDateColumn (orEmpty (q_filter ?q)) = Some lo"
    and hi: "maxDateColumn (orEmpty (q_filter ?q)) = Some hi"
    and v: "sql_values stmt = [f_value lo, f_value hi] @ map f_value (orEmpty (q_filter ?q))
                                @ sql_values (limitString (q_limit ?q))"
    by blast
  from lo have "lo = lowerFilter" by (simp add: eval_defs)
  moreover from hi have "hi = upperFilter" by (simp add: eval_defs)
  ultimately have "sql_values stmt = [DateValue 1704067200000, DateValue 1706745600000,
            DateValue 1704067200000, DateValue 1706745600000, NumberValue 10]"
    using v by (simp add: eval_defs)
  with s show ?thesis by (simp add: statement_values_def)
qed



text \<open>
  Claim C6. A query-semantics violation ends the compile attempt with an error and no
  statement: \<open>MultipleDatetimeGroupBy\<close> when the group-by list holds more than one
  datetime entry, \<open>MismatchedRangeColumn\<close> when a lower-bound and an upper-bound
  datetime filter are found and the column of either differs from the column of the one
  datetime group-by. The same holds after the tenant filters are added.
\<close>

theorem semantic_violations_are_fatal:
  "(1 < length (filter isDatetimeGroupBy (orEmpty (q_groupBy qry)))
      \<longrightarrow> createQuery defs qry = Inl MultipleDatetimeGroupBy
        \<and> enrichAndCreateQuery defs projectId qry = Inl MultipleDatetimeGroupBy)
   \<and> (filter isDatetimeGroupBy (orEmpty (q_groupBy qry)) = [g]
      \<and> g_temporalUnit g = Some unit
      \<and> find isLowerBound (filter isTimeRangeFilter (orEmpty (q_filter qry))) = Some lo
      \<and> find isUpperBound (filter isTimeRangeFilter (orEmpty (q_filter qry))) = Some hi
      \<and> (f_column lo \<noteq> g_column g \<or> f_column hi \<noteq> g_column g)
      \<longrightarrow> createQuery defs qry = Inl MismatchedRangeColumn
        \<and> enrichAndCreateQuery defs projectId qry = Inl MismatchedRangeColumn)"
proof (intro conjI impI)
  assume m: "1 < length (filter isDatetimeGroupBy (orEmpty (q_groupBy qry)))"
  show "createQuery defs qry = Inl MultipleDatetimeGroupBy"
    by (rule createQuery_plan_error) (rule createDateRangeCte_multiple[OF m])
  show "enrichAndCreateQuery defs projectId qry = Inl MultipleDatetimeGroupBy"
    unfolding enrichAndCreateQuery_def
    by (rule createQuery_plan_error) (simp add: createDateRangeCte_multiple[OF m])
next
  assume a: "filter isDatetimeGroupBy (orEmpty (q_groupBy qry)) = [g]
      \<and> g_temporalUnit g = Some unit
      \<and> find isLowerBound (filter isTimeRangeFilter (orEmpty (q_filter qry))) = Some lo
      \<and> find isUpperBound (filter isTimeRangeFilter (orEmpty (q_filter qry))) = Some hi
      \<and> (f_column lo \<noteq> g_column g \<or> f_column hi \<noteq> g_column g)"
  show "createQuery defs qry = Inl MismatchedRangeColumn"
    by (rule createQuery_plan_error) (rule createDateRangeCte_mismatch[of _ g unit _ lo hi], use a in simp_all)
  show "enrichAndCreateQuery defs projectId qry = Inl MismatchedRangeColumn"
    unfolding enrichAndCreateQuery_def
    by (rule createQuery_plan_error)
       (rule createDateRangeCte_mismatch[of _ g unit _ lo hi], use a in \<open>simp_all add: mandatory_not_datetime\<close>)
qed

theorem semantic_violations_are_fatal_witness:
  "1 < length (filter isDatetimeGroupBy (orEmpty (q_groupBy multiDatetimeQuery)))
   \<and> createQuery fixtureDefinitions multiDatetimeQuery = Inl MultipleDatetimeGroupBy
   \<and> enrichAndCreateQuery fixtureDefinitions ''p1'' multiDatetimeQuery = Inl MultipleDatetimeGroupBy
   \<and> f_column (upperFilter \<lparr> f_column := ''version'' \<rparr>) \<noteq> ''timestamp''
   \<and> createQuery fixtureDefinitions mismatchedQuery = Inl MismatchedRangeColumn
   \<and> enrichAndCreateQuery fixtureDefinitions ''p1'' mismatchedQuery = Inl MismatchedRangeColumn"
proof -
  let ?g = "\<lparr> g_type = ''datetime'', g_column = ''timestamp'', g_temporalUnit = Some ''day'' \<rparr>"
  let ?hi = "upperFilter \<lparr> f_column := ''version'' \<rparr>"
  have 1: "1 < length (filter isDatetimeGroupBy (orEmpty (q_groupBy multiDatetimeQuery)))"
    by (simp add: multiDatetimeQuery_def isDatetimeGroupBy_def)
  have 2: "filter isDatetimeGroupBy (orEmpty (q_groupBy mismatchedQuery)) = [?g]
      \<and> g_temporalUnit ?g = Some ''day''
      \<and> find isLowerBound (filter isTimeRangeFilter (orEmpty (q_filter mismatchedQuery))) = Some lowerFilter
      \<and> find isUpperBound (filter isTimeRangeFilter (orEmpty (q_filter mismatchedQuery))) = Some ?hi
      \<and> (f_column lowerFilter \<noteq> g_column ?g \<or> f_column ?hi \<noteq> g_column ?g)"
    by (simp add: mismatchedQuery_def bucketQuery_def isDatetimeGroupBy_def lowerFilter_def
          upperFilter_def isTimeRangeFilter_def isLowerBound_def isUpperBound_def)
  from semantic_violations_are_fatal[where qry = multiDatetimeQuery and defs = fixtureDefinitions
      and projectId = "''p1''"] 1
  have a: "createQuery fixtureDefinitions multiDatetimeQuery = Inl MultipleDatetimeGroupBy
   \<and> enrichAndCreateQuery fixtureDefinitions ''p1'' multiDatetimeQuery = Inl MultipleDatetimeGroupBy"
    by blast
  from semantic_violations_are_fatal[where qry = mismatchedQuery and g = ?g and unit = "''day''"
      and lo = lowerFilter and hi = ?hi and defs = fixtureDefinitions and projectId = "''p1''"] 2
  have b: "createQuery fixtureDefinitions mismatchedQuery = Inl MismatchedRangeColumn
   \<and> enrichAndCreateQuery fixtureDefinitions ''p1'' mismatchedQuery = Inl MismatchedRangeColumn"
    by blast
  have c: "f_column ?hi \<noteq> ''timestamp''" by (simp add: upperFilter_def)
  from 1 a b c show ?thesis by blast
qed



text \<open>
  Claim C4. For every table and tenant \<open>P\<close>, a query of exactly one column without
  aggregation, with no user filter, group-by, order-by or limit, whose column and tenant
  columns the registry resolves, compiles to the statement
  \<^verbatim>\<open>SELECT <col> FROM <physical(T)> WHERE <tenantPredicate>;\<close> (with the builder's
  spacing), and \<open>P\<close> is the only value bound: once for each tenant comparison of the
  table.
\<close>

theorem plain_single_column_query:
  assumes "q_select qry = [\<lparr> s_column = c, s_agg = None \<rparr>]"
    and "orEmpty (q_filter qry) = []" and "orEmpty (q_groupBy qry) = []"
    and "orEmpty (q_orderBy qry) = []" and "q_limit qry = None"
    and "getColumnDefinition defs (q_from qry) c = Inr col"
    and "tenantColumnsKnown defs (q_from qry)"
  shows \<open>statement_text (enrichAndCreateQuery defs P qry)
           = Inr ('' SELECT '' @ internal col @ '' as "'' @ c @ ''"'' @ '' FROM ''
                  @ table (defs (q_from qry)) @ ''  WHERE  ''
                  @ tenantPredicate defs (q_from qry) @ '';'')
         \<and> statement_values (enrichAndCreateQuery defs P qry)
           = Inr (replicate (length (tenantColumns (q_from qry))) (StringValue P))
         \<and> (\<exists>stmt. enrichAndCreateQuery defs P qry = Inr stmt
                  \<and> set (sql_values stmt) = {StringValue P})\<close>
proof -
  let ?t = "q_from qry"
  let ?q = "qry \<lparr> q_filter := Some (orEmpty (q_filter qry) @ getMandatoryFilter ?t P) \<rparr>"
  let ?cols = "columns (defs ?t)"
  have plan: "createDateRangeCte defs ?t (orEmpty (q_filter qry) @ getMandatoryFilter ?t P)
                (orEmpty (q_groupBy qry)) = Inr None"
    using assms(3) by (simp add: createDateRangeCte_def)
  from assms(6) have n: "name col = c" by (rule getColumnDefinition_name)
  have sel: \<open>selectFields defs ?q None = Inr [raw (internal col) @ raw '' as "'' @ raw c @ raw ''"'']\<close>
    using assms(1,6) n by (simp add: selectFields_def selectField_def getInternalSql_def)
  have grp: "groupString defs ?q None = Inr empty_sql"
    using assms(3) by (simp add: groupString_def nonEmpty_orEmpty)
  have ord: "prepareOrderByString defs ?t (q_orderBy ?q) False = Inr empty_sql"
    using assms(4) by (simp add: prepareOrderByString_def)
  have flt: "\<exists>fs. filterString defs ?q None = Inr (raw '' '' @ raw '' WHERE '' @ raw '' '' @ fs)
        \<and> sql_text fs = tenantPredicate defs ?t
        \<and> sql_values fs = replicate (length (tenantColumns ?t)) (StringValue P)"
  proof (cases ?t)
    case Traces
    with assms(7) obtain c1 where "find (\<lambda>x. name x = ''tracesProjectId'') ?cols = Some c1"
      by (auto simp: tenantColumnsKnown_def tenantColumns_def)
    then show ?thesis using Traces assms(2)
      by (simp add: filterString_def prepareFilterString_def getMandatoryFilter_tenant
            tenantColumns_def filterSql_tenant tenantPredicate_def)
  next
    case Traces_scores
    with assms(7) obtain c1 where "find (\<lambda>x. name x = ''tracesProjectId'') ?cols = Some c1"
      by (auto simp: tenantColumnsKnown_def tenantColumns_def)
    then show ?thesis using Traces_scores assms(2)
      by (simp add: filterString_def prepareFilterString_def getMandatoryFilter_tenant
            tenantColumns_def filterSql_tenant tenantPredicate_def)
  next
    case Observations
    with assms(7) obtain c2 where "find (\<lambda>x. name x = ''observationsProjectId'') ?cols = Some c2"
      by (auto simp: tenantColumnsKnown_def tenantColumns_def)
    then show ?thesis using Observations assms(2)
      by (simp add: filterString_def prepareFilterString_def getMandatoryFilter_tenant
            tenantColumns_def filterSql_tenant tenantPredicate_def)
  next
    case Traces_observations
    with assms(7) obtain c1 c2 where "find (\<lambda>x. name x = ''tracesProjectId'') ?cols = Some c1"
      "find (\<lambda>x. name x = ''observationsProjectId'') ?cols = Some c2"
      by (auto simp: tenantColumnsKnown_def tenantColumns_def)
    then show ?thesis using Traces_observations assms(2)
      by (simp add: filterString_def prepareFilterString_def getMandatoryFilter_tenant
            tenantColumns_def filterSql_tenant tenantPredicate_def)
  next
    case Traces_parent_observation_scores
    with assms(7) obtain c1 c2 where "find (\<lambda>x. name x = ''tracesProjectId'') ?cols = Some c1"
      "find (\<lambda>x. name x = ''observationsProjectId'') ?cols = Some c2"
      by (auto simp: tenantColumnsKnown_def tenantColumns_def)
    then show ?thesis using Traces_parent_observation_scores assms(2)
      by (simp add: filterString_def prepareFilterString_def getMandatoryFilter_tenant
            tenantColumns_def filterSql_tenant tenantPredicate_def)
  qed
  then obtain fs where f: "filterString defs ?q None = Inr (raw '' '' @ raw '' WHERE '' @ raw '' '' @ fs)"
    and ft: "sql_text fs = tenantPredicate defs ?t"
    and fv: "sql_values fs = replicate (length (tenantColumns ?t)) (StringValue P)"
    by blast
  have e: \<open>enrichAndCreateQuery defs P qry
          = Inr (empty_sql @ selectString [raw (internal col) @ raw '' as "'' @ raw c @ raw ''"'']
                 @ fromString defs ?t None @ (raw '' '' @ raw '' WHERE '' @ raw '' '' @ fs)
                 @ empty_sql @ empty_sql @ limitString None @ raw '';'')\<close>
    using plan sel grp ord f assms(5)
    by (simp add: enrichAndCreateQuery_def createQuery_def)
  have pos: "0 < length (tenantColumns ?t)" by (cases ?t) (simp_all add: tenantColumns_def)
  have t: \<open>statement_text (enrichAndCreateQuery defs P qry)
           = Inr ('' SELECT '' @ internal col @ '' as "'' @ c @ ''"'' @ '' FROM ''
                  @ table (defs (q_from qry)) @ ''  WHERE  ''
                  @ tenantPredicate defs (q_from qry) @ '';'')\<close>
    unfolding e
    by (simp add: statement_text_def selectString_def fromString_def getTableSql_def
          limitString_def ft)
  have v: "statement_values (enrichAndCreateQuery defs P qry)
           = Inr (replicate (length (tenantColumns (q_from qry))) (StringValue P))"
    unfolding e
    by (simp add: statement_values_def selectString_def fromString_def limitString_def fv)
  from v pos have "\<exists>stmt. enrichAndCreateQuery defs P qry = Inr stmt
                  \<and> set (sql_values stmt) = {StringValue P}"
    unfolding e by (auto simp: statement_values_def)
  with t v show ?thesis by blast
qed

theorem plain_single_column_query_witness:
  \<open>statement_text (enrichAndCreateQuery fixtureDefinitions ''p1'' plainQuery)
     = Inr '' SELECT t."id" as "traceId" FROM traces t LEFT JOIN observations o ON t.id = o.trace_id  WHERE  t."project_id" = ?  AND o."project_id" = ? ;''
   \<and> statement_values (enrichAndCreateQuery fixtureDefinitions ''p1'' plainQuery)
     = Inr [StringValue ''p1'', StringValue ''p1'']
   \<and> statement_text (enrichAndCreateQuery fixtureDefinitions ''p1''
        (plainQuery \<lparr> q_from := Traces, q_select := [\<lparr> s_column = ''id'', s_agg = None \<rparr>] \<rparr>))
     = Inr '' SELECT t."id" as "id" FROM traces t  WHERE  t."project_id" = ? ;''
   \<and> statement_values (enrichAndCreateQuery fixtureDefinitions ''p1''
        (plainQuery \<lparr> q_from := Traces, q_select := [\<lparr> s_column = ''id'', s_agg = None \<rparr>] \<rparr>))
     = Inr [StringValue ''p1'']\<close>
proof -
  let ?q = "plainQuery \<lparr> q_from := Traces, q_select := [\<lparr> s_column = ''id'', s_agg = None \<rparr>] \<rparr>"
  have a: \<open>statement_text (enrichAndCreateQuery fixtureDefinitions ''p1'' plainQuery)
     = Inr '' SELECT t."id" as "traceId" FROM traces t LEFT JOIN observations o ON t.id = o.trace_id  WHERE  t."project_id" = ?  AND o."project_id" = ? ;''
   \<and> statement_values (enrichAndCreateQuery fixtureDefinitions ''p1'' plainQuery)
     = Inr [StringValue ''p1'', StringValue ''p1'']\<close>
    using plain_single_column_query[where qry = plainQuery and defs = fixtureDefinitions
        and c = "''traceId''" and P = "''p1''"
        and col = \<open>\<lparr> name = ''traceId'', internal = ''t."id"'' \<rparr>\<close>]
    by (simp add: plainQuery_def getColumnDefinition_def fixtureDefinitions_def
          tenantColumnsKnown_def tenantColumns_def tenantPredicate_def)
  have b: \<open>statement_text (enrichAndCreateQuery fixtureDefinitions ''p1'' ?q)
     = Inr '' SELECT t."id" as "id" FROM traces t  WHERE  t."project_id" = ? ;''
   \<and> statement_values (enrichAndCreateQuery fixtureDefinitions ''p1'' ?q)
     = Inr [StringValue ''p1'']\<close>
    using plain_single_column_query[where qry = ?q and defs = fixtureDefinitions
        and c = "''id''" and P = "''p1''"
        and col = \<open>\<lparr> name = ''id'', internal = ''t."id"'' \<rparr>\<close>]
    by (simp add: plainQuery_def getColumnDefinition_def fixtureDefinitions_def
          tenantColumnsKnown_def tenantColumns_def tenantPredicate_def)
  from a b show ?thesis by blast
qed

text \<open>
  Claim C8. A selected column with an aggregation is emitted as
  \<^verbatim>\<open>AGG(expr) as "alias"\<close> where the alias is the aggregation name lower-cased followed
  by the column name with its first letter capitalised (\<open>sum\<close> over \<open>amount\<close> gives
  \<open>sumAmount\<close>); a selected column without aggregation is emitted as
  \<^verbatim>\<open>expr as "column"\<close>, its alias the column name itself.
\<close>

theorem select_alias_rule:
  assumes "getColumnDefinition defs t (s_column field) = Inr col"
  shows \<open>statement_text (selectField defs t field)
           = Inr ((if truthy (s_agg field)
                   then the (s_agg field) @ ''('' @ internal col @ '')'' else internal col)
                  @ '' as "'' @ aliasOf (s_agg field) (s_column field) @ ''"'')
         \<and> aliasOf (s_agg field) (s_column field)
           = (if truthy (s_agg field)
              then toLowerCase (the (s_agg field))
                   @ toUpperCase (take 1 (s_column field)) @ drop 1 (s_column field)
              else s_column field)
         \<and> aliasOf (Some ''sum'') ''amount'' = ''sumAmount''
         \<and> aliasOf (Some ''SUM'') ''amount'' = ''sumAmount''
         \<and> aliasOf None ''amount'' = ''amount''\<close>
proof -
  from assms have n: "name col = s_column field" by (rule getColumnDefinition_name)
  have 1: \<open>statement_text (selectField defs t field)
           = Inr ((if truthy (s_agg field)
                   then the (s_agg field) @ ''('' @ internal col @ '')'' else internal col)
                  @ '' as "'' @ aliasOf (s_agg field) (s_column field) @ ''"'')\<close>
    using assms n
    by (simp add: statement_text_def selectField_def aliasOf_def getInternalSql_def)
  have 2: "aliasOf (s_agg field) (s_column field)
           = (if truthy (s_agg field)
              then toLowerCase (the (s_agg field))
                   @ toUpperCase (take 1 (s_column field)) @ drop 1 (s_column field)
              else s_column field)"
    by (simp add: aliasOf_def capitalizeFirstLetter_def)
  have 3: "aliasOf (Some ''sum'') ''amount'' = ''sumAmount''"
    "aliasOf (Some ''SUM'') ''amount'' = ''sumAmount''"
    "aliasOf None ''amount'' = ''amount''"
    by (simp_all add: aliasOf_def eval_defs)
  from 1 2 3 show ?thesis by blast
qed

theorem select_alias_rule_witness:
  \<open>statement_text (selectField fixtureDefinitions Observations
                      \<lparr> s_column = ''totalTokens'', s_agg = Some ''SUM'' \<rparr>)
     = Inr ''SUM(o."total_tokens") as "sumTotalTokens"''
   \<and> statement_text (selectField fixtureDefinitions Observations
                      \<lparr> s_column = ''totalTokens'', s_agg = None \<rparr>)
     = Inr ''o."total_tokens" as "totalTokens"''\<close>
proof -
  let ?col = \<open>\<lparr> name = ''totalTokens'', internal = ''o."total_tokens"'' \<rparr>\<close>
  have c: "getColumnDefinition fixtureDefinitions Observations ''totalTokens'' = Inr ?col"
    by (simp add: getColumnDefinition_def fixtureDefinitions_def)
  from select_alias_rule[where field = "\<lparr> s_column = ''totalTokens'', s_agg = Some ''SUM'' \<rparr>"
      and defs = fixtureDefinitions and t = Observations and col = ?col]
    select_alias_rule[where field = "\<lparr> s_column = ''totalTokens'', s_agg = None \<rparr>"
      and defs = fixtureDefinitions and t = Observations and col = ?col] c
  show ?thesis
    by (simp add: aliasOf_def eval_defs)
qed

text \<open>
  Claim C5. Whenever a bucket plan exists, the compiled statement is the series
  definition followed by (a) a SELECT list that starts with the series column aliased to
  the datetime column's name, ahead of the selected columns, (b) the FROM clause
  \<^verbatim>\<open>date_series LEFT JOIN table ON DATE_TRUNC(unit, column) = DATE_TRUNC(unit, series)\<close>
  in place of the plain table, (c) a GROUP BY whose field is the series column wherever
  the entry is the datetime dimension and the registry's expression elsewhere, and (d) an
  ORDER BY that starts with the series column ascending, ahead of the explicit terms.
\<close>

theorem bucket_plan_rewrites_statement:
  assumes "createDateRangeCte defs (q_from qry) (orEmpty (q_filter qry))
             (orEmpty (q_groupBy qry)) = Inr (Some p)"
    and "createQuery defs qry = Inr stmt"
  shows \<open>\<exists>g unit sel gs ord flt.
           filter isDatetimeGroupBy (orEmpty (q_groupBy qry)) = [g]
         \<and> g_temporalUnit g = Some unit
         \<and> name (cte_column p) = g_column g
         \<and> mapE (selectField defs (q_from qry)) (q_select qry) = Inr sel
         \<and> mapE (prepareGroupBy defs (q_from qry)) (orEmpty (q_groupBy qry)) = Inr gs
         \<and> mapE (orderByTerm defs (q_from qry)) (orEmpty (q_orderBy qry)) = Inr ord
         \<and> filterString defs qry (Some p) = Inr flt
         \<and> stmt = cte p
                @ (raw '' SELECT ''
                   @ join ((raw ''date_series."date" as "'' @ raw (g_column g) @ raw ''"'') # sel)
                       '', '')
                @ modifiedFrom defs (q_from qry) unit (cte_column p)
                @ flt
                @ (raw '' GROUP BY '' @ join gs '', '')
                @ (raw '' ORDER BY '' @ join (raw ''date_series."date" ASC'' # ord) '', '')
                @ limitString (q_limit qry) @ raw '';''
         \<and> sql_text (modifiedFrom defs (q_from qry) unit (cte_column p))
             = '' FROM date_series LEFT JOIN '' @ table (defs (q_from qry))
               @ '' ON DATE_TRUNC('' @ [CHR 0x27] @ unit @ [CHR 0x27] @ '', ''
               @ internal (cte_column p) @ '') = DATE_TRUNC('' @ [CHR 0x27] @ unit
               @ [CHR 0x27] @ '', date_series."date")''
         \<and> list_all2 (groupByFieldOk defs (q_from qry)) (orEmpty (q_groupBy qry)) gs\<close>
proof -
  from createDateRangeCte_Some[OF assms(1)] obtain g unit where
    g: "filter isDatetimeGroupBy (orEmpty (q_groupBy qry)) = [g]"
    and u: "g_temporalUnit g = Some unit"
    and col: "getColumnDefinition defs (q_from qry) (g_column g) = Inr (cte_column p)"
    and fr: "cte_from p = modifiedFrom defs (q_from qry) unit (cte_column p)"
    by blast
  from col have n: "name (cte_column p) = g_column g" by (rule getColumnDefinition_name)
  from g have ne: "orEmpty (q_groupBy qry) \<noteq> []" by (rule filter_singleton_nonempty)
  from createQuery_structure[OF assms(2)] assms(1) obtain sel0 grp ordS flt where
    sel0: "selectFields defs qry (Some p) = Inr sel0"
    and grp: "groupString defs qry (Some p) = Inr grp"
    and ordS: "prepareOrderByString defs (q_from qry) (q_orderBy qry) True = Inr ordS"
    and flt: "filterString defs qry (Some p) = Inr flt"
    and stmt: "stmt = cte p @ selectString sel0 @ fromString defs (q_from qry) (Some p) @ flt
            @ grp @ ordS @ limitString (q_limit qry) @ raw '';''"
    by auto
  from sel0 obtain sel where sel: "mapE (selectField defs (q_from qry)) (q_select qry) = Inr sel"
    and sel0_eq: "sel0 = seriesColumn p # sel"
    by (auto simp: selectFields_def bindE_eq_Inr)
  from groupString_nonempty[OF grp ne] obtain gs where
    gs: "mapE (prepareGroupBy defs (q_from qry)) (orEmpty (q_groupBy qry)) = Inr gs"
    and grp_eq: "grp = raw '' GROUP BY '' @ join gs '', ''"
    by blast
  from ordS obtain ord where
    ord: "mapE (orderByTerm defs (q_from qry)) (orEmpty (q_orderBy qry)) = Inr ord"
    and ord_eq: \<open>ordS = raw '' ORDER BY '' @ join (raw ''date_series."date" ASC'' # ord) '', ''\<close>
    by (auto simp: prepareOrderByString_def bindE_eq_Inr)
  have s: \<open>stmt = cte p
                @ (raw '' SELECT ''
                   @ join ((raw ''date_series."date" as "'' @ raw (g_column g) @ raw ''"'') # sel)
                       '', '')
                @ modifiedFrom defs (q_from qry) unit (cte_column p)
                @ flt
                @ (raw '' GROUP BY '' @ join gs '', '')
                @ (raw '' ORDER BY '' @ join (raw ''date_series."date" ASC'' # ord) '', '')
                @ limitString (q_limit qry) @ raw '';''\<close>
    unfolding stmt sel0_eq grp_eq ord_eq
    by (simp add: selectString_def fromString_def fr seriesColumn_def n)
  have t: \<open>sql_text (modifiedFrom defs (q_from qry) unit (cte_column p))
             = '' FROM date_series LEFT JOIN '' @ table (defs (q_from qry))
               @ '' ON DATE_TRUNC('' @ [CHR 0x27] @ unit @ [CHR 0x27] @ '', ''
               @ internal (cte_column p) @ '') = DATE_TRUNC('' @ [CHR 0x27] @ unit
               @ [CHR 0x27] @ '', date_series."date")''\<close>
    by (simp add: modifiedFrom_def getTableSql_def getInternalSql_def)
  from g u n sel gs ord flt s t mapE_prepareGroupBy[OF gs] show ?thesis by blast
qed

theorem bucket_plan_rewrites_statement_witness:
  \<open>createDateRangeCte fixtureDefinitions (q_from bucketQuery) (orEmpty (q_filter bucketQuery))
      (orEmpty (q_groupBy bucketQuery)) \<noteq> Inr None
   \<and> statement_text (createQuery fixtureDefinitions bucketQuery)
     = Inr (''\<newline>      WITH date_series AS (\<newline>        SELECT generate_series(?, ?, '1 day') as date\<newline>      )\<newline>     SELECT date_series."date" as "timestamp", COUNT(t."id") as "countId" FROM date_series LEFT JOIN traces t ON DATE_TRUNC('day', t."timestamp") = DATE_TRUNC('day', date_series."date")  AND  t."timestamp" >= ? AND t."timestamp" < ? GROUP BY date_series."date", t."version" ORDER BY date_series."date" ASC, COUNT(t."id") DESC;'')\<close>
proof -
  let ?q = bucketQuery
  let ?d = fixtureDefinitions
  obtain p where p: "createDateRangeCte ?d (q_from ?q) (orEmpty (q_filter ?q))
             (orEmpty (q_groupBy ?q)) = Inr (Some p)"
    by (simp add: eval_defs)
  obtain stmt where s: "createQuery ?d ?q = Inr stmt"
    by (simp add: eval_defs)
  from bucket_plan_rewrites_statement[OF p s] obtain g unit sel gs ord flt where
    g: "filter isDatetimeGroupBy (orEmpty (q_groupBy ?q)) = [g]"
    and u: "g_temporalUnit g = Some unit"
    and sel: "mapE (selectField ?d (q_from ?q)) (q_select ?q) = Inr sel"
    and gs: "mapE (prepareGroupBy ?d (q_from ?q)) (orEmpty (q_groupBy ?q)) = Inr gs"
    and ord: "mapE (orderByTerm ?d (q_from ?q)) (orEmpty (q_orderBy ?q)) = Inr ord"
    and flt: "filterString ?d ?q (Some p) = Inr flt"
    and stmt: \<open>stmt = cte p
                @ (raw '' SELECT ''
                   @ join ((raw ''date_series."date" as "'' @ raw (g_column g) @ raw ''"'') # sel)
                       '', '')
                @ modifiedFrom ?d (q_from ?q) unit (cte_column p)
                @ flt
                @ (raw '' GROUP BY '' @ join gs '', '')
                @ (raw '' ORDER BY '' @ join (raw ''date_series."date" ASC'' # ord) '', '')
                @ limitString (q_limit ?q) @ raw '';''\<close>
    by blast
  from g have g': "g = \<lparr> g_type = ''datetime'', g_column = ''timestamp'',
                            g_temporalUnit = Some ''day'' \<rparr>"
    by (simp add: bucketQuery_def isDatetimeGroupBy_def)
  from u g' have u': "unit = ''day''" by simp
  from p have p': \<open>cte p = cteString (DateValue 1704067200000) (DateValue 1706745600000) ''day''\<close>
    \<open>cte_column p = \<lparr> name = ''timestamp'', internal = ''t."timestamp"'' \<rparr>\<close>
    by (auto simp: eval_defs)
  from sel have sel': \<open>sel = [raw ''COUNT'' @ raw ''('' @ raw ''t."id"'' @ raw '') as "''
                               @ raw ''count'' @ raw ''Id'' @ raw ''"'']\<close>
    by (auto simp: eval_defs)
  from gs have gs': \<open>gs = [raw ''date_series."date"'', raw ''t."version"'']\<close>
    by (auto simp: eval_defs)
  from ord have ord': \<open>ord = [raw ''COUNT'' @ raw ''('' @ raw ''t."id"'' @ raw '')'' @ raw '' ''
                                @ raw ''DESC'']\<close>
    by (auto simp: eval_defs)
  from flt have flt': \<open>sql_text flt = ''  AND  t."timestamp" >= ? AND t."timestamp" < ?''\<close>
    by (auto simp: eval_defs)
  have \<open>sql_text stmt = ''\<newline>      WITH date_series AS (\<newline>        SELECT generate_series(?, ?, '1 day') as date\<newline>      )\<newline>     SELECT date_series."date" as "timestamp", COUNT(t."id") as "countId" FROM date_series LEFT JOIN traces t ON DATE_TRUNC('day', t."timestamp") = DATE_TRUNC('day', date_series."date")  AND  t."timestamp" >= ? AND t."timestamp" < ? GROUP BY date_series."date", t."version" ORDER BY date_series."date" ASC, COUNT(t."id") DESC;''\<close>
    unfolding stmt g' u' p' sel' gs' ord'
    by (simp add: flt' cteString_def modifiedFrom_def getTableSql_def getInternalSql_def
          fixtureDefinitions_def bucketQuery_def limitString_def)
  with s p show ?thesis by (simp add: statement_text_def)
qed

text \<open>
  Claim C7 fails on the code. With exactly one datetime group-by and a filter list
  without a bounded range, no plan is produced and planning raises no error, as the
  claim says: the statement has no series definition and selects from the plain table.
  But \<^verbatim>\<open>prepareGroupBy\<close> emits the series column for a datetime entry whether or not a
  plan exists, so the GROUP BY still names \<^verbatim>\<open>date_series."date"\<close>, not the table's
  column expression. The second theorem runs the builder on such a query.
\<close>

theorem no_plan_groups_by_series:
  assumes "filter isDatetimeGroupBy (orEmpty (q_groupBy qry)) = [g]"
    and "noBoundedRange (orEmpty (q_filter qry))"
  shows "createDateRangeCte defs (q_from qry) (orEmpty (q_filter qry))
           (orEmpty (q_groupBy qry)) = Inr None
       \<and> (\<forall>stmt. createQuery defs qry = Inr stmt \<longrightarrow>
            (\<exists>sel flt gs ord.
               mapE (prepareGroupBy defs (q_from qry)) (orEmpty (q_groupBy qry)) = Inr gs
             \<and> list_all2 (groupByFieldOk defs (q_from qry)) (orEmpty (q_groupBy qry)) gs
             \<and> stmt = selectString sel @ (raw '' FROM '' @ getTableSql defs (q_from qry)) @ flt
                      @ (raw '' GROUP BY '' @ join gs '', '') @ ord
                      @ limitString (q_limit qry) @ raw '';''))"
proof -
  have plan: "createDateRangeCte defs (q_from qry) (orEmpty (q_filter qry))
           (orEmpty (q_groupBy qry)) = Inr None"
    using assms by (rule createDateRangeCte_no_range)
  from assms(1) have ne: "orEmpty (q_groupBy qry) \<noteq> []" by (rule filter_singleton_nonempty)
  have "\<exists>sel flt gs ord.
               mapE (prepareGroupBy defs (q_from qry)) (orEmpty (q_groupBy qry)) = Inr gs
             \<and> list_all2 (groupByFieldOk defs (q_from qry)) (orEmpty (q_groupBy qry)) gs
             \<and> stmt = selectString sel @ (raw '' FROM '' @ getTableSql defs (q_from qry)) @ flt
                      @ (raw '' GROUP BY '' @ join gs '', '') @ ord
                      @ limitString (q_limit qry) @ raw '';''"
    if c: "createQuery defs qry = Inr stmt" for stmt
  proof -
    from createQuery_structure[OF c] plan obtain sel grp ord flt where
      grp: "groupString defs qry None = Inr grp"
      and stmt: "stmt = empty_sql @ selectString sel @ fromString defs (q_from qry) None @ flt
            @ grp @ ord @ limitString (q_limit qry) @ raw '';''"
      by auto
    from groupString_nonempty[OF grp ne] obtain gs where
      gs: "mapE (prepareGroupBy defs (q_from qry)) (orEmpty (q_groupBy qry)) = Inr gs"
      and grp_eq: "grp = raw '' GROUP BY '' @ join gs '', ''"
      by blast
    have "stmt = selectString sel @ (raw '' FROM '' @ getTableSql defs (q_from qry)) @ flt
                      @ (raw '' GROUP BY '' @ join gs '', '') @ ord
                      @ limitString (q_limit qry) @ raw '';''"
      unfolding stmt grp_eq by (simp add: fromString_def empty_sql_def)
    with gs mapE_prepareGroupBy[OF gs] show ?thesis by blast
  qed
  with plan show ?thesis by blast
qed

theorem single_bound_groups_by_series:
  \<open>createDateRangeCte fixtureDefinitions (q_from singleBoundQuery)
      (orEmpty (q_filter singleBoundQuery)) (orEmpty (q_groupBy singleBoundQuery)) = Inr None
   \<and> statement_text (createQuery fixtureDefinitions singleBoundQuery)
       = Inr '' SELECT COUNT(t."id") as "countId" FROM traces t  WHERE  t."timestamp" >= ? GROUP BY date_series."date";''\<close>
proof -
  let ?g = "\<lparr> g_type = ''datetime'', g_column = ''timestamp'', g_temporalUnit = Some ''day'' \<rparr>"
  have 1: "filter isDatetimeGroupBy (orEmpty (q_groupBy singleBoundQuery)) = [?g]"
    by (simp add: singleBoundQuery_def isDatetimeGroupBy_def)
  have 2: "noBoundedRange (orEmpty (q_filter singleBoundQuery))"
    by (simp add: singleBoundQuery_def noBoundedRange_def)
  from no_plan_groups_by_series[OF 1 2, of fixtureDefinitions]
  have "createDateRangeCte fixtureDefinitions (q_from singleBoundQuery)
      (orEmpty (q_filter singleBoundQuery)) (orEmpty (q_groupBy singleBoundQuery)) = Inr None"
    by blast
  moreover have \<open>statement_text (createQuery fixtureDefinitions singleBoundQuery)
       = Inr '' SELECT COUNT(t."id") as "countId" FROM traces t  WHERE  t."timestamp" >= ? GROUP BY date_series."date";''\<close>
    by (simp add: eval_defs)
  ultimately show ?thesis by blast
qed

text \<open>
  Claim C9. The normalizer maps each cell by its type: a bigint through \<^verbatim>\<open>Number\<close>, a
  decimal through \<^verbatim>\<open>toNumber\<close>, and a number, a string, a timestamp and null unchanged;
  a cell of any other type is an error. A row list is normalized cell by cell with its
  keys kept, and the parser fails exactly when some cell has an unrecognised type. With
  conversions that are exact on floating-point values, decimal 10.5 gives 10.5, bigint 42
  gives 42 and null gives null.
\<close>

theorem outputParser_normalizes:
  "parseCell N D (BigIntCell n) = Inr (NumberOut (N n))
   \<and> parseCell N D (DecimalCell d) = Inr (NumberOut (D d))
   \<and> parseCell N D (NumberCell x) = Inr (NumberOut x)
   \<and> parseCell N D (StringCell s) = Inr (StringOut s)
   \<and> parseCell N D (DateCell t) = Inr (DateOut t)
   \<and> parseCell N D NullCell = Inr NullOut
   \<and> parseCell N D (OtherCell ty) = Inl (UnknownType ty)
   \<and> (outputParser N D rows = Inr out \<longleftrightarrow>
        list_all2 (list_all2 (\<lambda>kv kv'. fst kv' = fst kv
                                \<and> parseCell N D (snd kv) = Inr (snd kv'))) rows out)
   \<and> ((\<exists>e. outputParser N D rows = Inl e) \<longleftrightarrow>
        (\<exists>row \<in> set rows. \<exists>kv \<in> set row. isOther (snd kv)))"
proof -
  have a: "outputParser N D rows = Inr out \<longleftrightarrow>
        list_all2 (list_all2 (\<lambda>kv kv'. fst kv' = fst kv
                                \<and> parseCell N D (snd kv) = Inr (snd kv'))) rows out"
    by (simp add: outputParser_def mapE_Inr parseEntry_Inr_iff)
  have b: "(\<exists>e. outputParser N D rows = Inl e) \<longleftrightarrow>
        (\<exists>row \<in> set rows. \<exists>kv \<in> set row. isOther (snd kv))"
    by (simp add: outputParser_def mapE_Inl_iff parseEntry_Inl_iff)
  from a b show ?thesis by simp
qed

theorem outputParser_normalizes_witness:
  "outputParser real_of_int real_of_rat exampleRows
     = Inr [[(''avg'', NumberOut (21 / 2)), (''count'', NumberOut 42), (''name'', NullOut)],
            [(''avg'', NumberOut (3 / 4)), (''name'', StringOut ''chat''),
             (''day'', DateOut 1704067200000)]]
   \<and> outputParser real_of_int real_of_rat (exampleRows @ [[(''flag'', OtherCell ''boolean'')]])
     = Inl (UnknownType ''boolean'')"
proof -
  let ?out = "[[(''avg'', NumberOut (21 / 2)), (''count'', NumberOut 42), (''name'', NullOut)],
            [(''avg'', NumberOut (3 / 4)), (''name'', StringOut ''chat''),
             (''day'', DateOut (1704067200000::int))]] :: (string \<times> real cell) list list"
  note t = outputParser_normalizes[where N = real_of_int and D = real_of_rat]
  have "list_all2 (list_all2 (\<lambda>kv kv'. fst kv' = fst kv
          \<and> parseCell real_of_int real_of_rat (snd kv) = Inr (snd kv'))) exampleRows ?out"
    by (simp add: exampleRows_def of_rat_divide)
  with t[where rows = exampleRows and out = ?out]
  have 1: "outputParser real_of_int real_of_rat exampleRows = Inr ?out" by blast
  have "\<exists>row \<in> set (exampleRows @ [[(''flag'', OtherCell ''boolean'')]]).
          \<exists>kv \<in> set row. isOther (snd kv)"
    by simp
  with t[where rows = "exampleRows @ [[(''flag'', OtherCell ''boolean'')]]"]
  obtain e where "outputParser real_of_int real_of_rat
                    (exampleRows @ [[(''flag'', OtherCell ''boolean'')]]) = Inl e"
    by blast
  moreover have "outputParser real_of_int real_of_rat
                    (exampleRows @ [[(''flag'', OtherCell ''boolean'')]]) \<noteq> Inl e'"
    if "e' \<noteq> UnknownType ''boolean''" for e'
    using that by (auto simp: outputParser_def exampleRows_def parseEntry_def)
  ultimately have 2: "outputParser real_of_int real_of_rat
             (exampleRows @ [[(''flag'', OtherCell ''boolean'')]]) = Inl (UnknownType ''boolean'')"
    by metis
  from 1 2 show ?thesis by blast
qed

text \<open>
  Claim C2, as stated, fails for the limit: two queries that differ only in their filter
  value and in the number of their limit, 0 against 5, compile to different texts,
  because a limit of 0 emits no LIMIT clause.
\<close>

theorem zero_limit_changes_text_counterexample:
  \<open>sameShape zeroLimitQuery fiveLimitQuery
   \<and> statement_text (enrichAndCreateQuery fixtureDefinitions ''p1'' zeroLimitQuery)
       = Inr '' SELECT t."id" as "id" FROM traces t  WHERE  t."version" = ?  AND t."project_id" = ? ;''
   \<and> statement_text (enrichAndCreateQuery fixtureDefinitions ''p1'' fiveLimitQuery)
       = Inr '' SELECT t."id" as "id" FROM traces t  WHERE  t."version" = ?  AND t."project_id" = ?  LIMIT ?;''
   \<and> statement_values (enrichAndCreateQuery fixtureDefinitions ''p1'' zeroLimitQuery)
       = Inr [StringValue ''v1'', StringValue ''p1'']
   \<and> statement_values (enrichAndCreateQuery fixtureDefinitions ''p1'' fiveLimitQuery)
       = Inr [StringValue ''v2'', StringValue ''p1'', NumberValue 5]\<close>
  by (simp add: eval_defs sameShape_def filterShape_def zeroLimitQuery_def fiveLimitQuery_def)



text \<open>
  Claim C2, amended. Two queries of the same shape, compiled for any two tenant
  identifiers, give the same result text (the same statement text, or the same error)
  provided both emit a LIMIT clause or neither does: filter values, the tenant
  identifier, the series bounds and the number of an emitted limit occur in the
  parameter list only.
\<close>

theorem values_never_in_text:
  assumes "sameShape a b" and "limitEmitted (q_limit a) = limitEmitted (q_limit b)"
  shows "statement_text (enrichAndCreateQuery defs P a)
           = statement_text (enrichAndCreateQuery defs P' b)
       \<and> statement_text (createQuery defs a) = statement_text (createQuery defs b)"
proof -
  from assms(1) have e: "q_from a = q_from b" "q_select a = q_select b"
    "q_groupBy a = q_groupBy b" "q_orderBy a = q_orderBy b"
    by (simp_all add: sameShape_def)
  note fl = sameShape_filters[OF assms(1)]
  have 1: "statement_text (createQuery defs a) = statement_text (createQuery defs b)"
    using e fl assms(2) by (rule createQuery_text)
  let ?a = "a \<lparr> q_filter := Some (orEmpty (q_filter a) @ getMandatoryFilter (q_from a) P) \<rparr>"
  let ?b = "b \<lparr> q_filter := Some (orEmpty (q_filter b) @ getMandatoryFilter (q_from b) P') \<rparr>"
  have "list_all2 (\<lambda>f f'. filterShape f = filterShape f')
          (orEmpty (q_filter ?a)) (orEmpty (q_filter ?b))"
    using fl mandatory_shape[of "q_from a" P P'] by (simp add: e(1) list_all2_appendI)
  then have "statement_text (createQuery defs ?a) = statement_text (createQuery defs ?b)"
    using e assms(2) by (intro createQuery_text) simp_all
  then have 2: "statement_text (enrichAndCreateQuery defs P a)
           = statement_text (enrichAndCreateQuery defs P' b)"
    by (simp add: enrichAndCreateQuery_def)
  from 1 2 show ?thesis by blast
qed

theorem values_never_in_text_witness:
  \<open>sameShape fiveLimitQuery (zeroLimitQuery \<lparr> q_limit := Some 7 \<rparr>)
   \<and> statement_text (enrichAndCreateQuery fixtureDefinitions ''p1'' fiveLimitQuery)
       = Inr '' SELECT t."id" as "id" FROM traces t  WHERE  t."version" = ?  AND t."project_id" = ?  LIMIT ?;''
   \<and> statement_text (enrichAndCreateQuery fixtureDefinitions ''p2''
                        (zeroLimitQuery \<lparr> q_limit := Some 7 \<rparr>))
       = Inr '' SELECT t."id" as "id" FROM traces t  WHERE  t."version" = ?  AND t."project_id" = ?  LIMIT ?;''
   \<and> statement_values (enrichAndCreateQuery fixtureDefinitions ''p1'' fiveLimitQuery)
       = Inr [StringValue ''v2'', StringValue ''p1'', NumberValue 5]
   \<and> statement_values (enrichAndCreateQuery fixtureDefinitions ''p2''
                          (zeroLimitQuery \<lparr> q_limit := Some 7 \<rparr>))
       = Inr [StringValue ''v1'', StringValue ''p2'', NumberValue 7]\<close>
proof -
  let ?b = "zeroLimitQuery \<lparr> q_limit := Some 7 \<rparr>"
  have s: "sameShape fiveLimitQuery ?b"
    by (simp add: sameShape_def filterShape_def zeroLimitQuery_def fiveLimitQuery_def)
  have l: "limitEmitted (q_limit fiveLimitQuery) = limitEmitted (q_limit ?b)"
    by (simp add: limitEmitted_def zeroLimitQuery_def fiveLimitQuery_def)
  have a: \<open>statement_text (enrichAndCreateQuery fixtureDefinitions ''p1'' fiveLimitQuery)
       = Inr '' SELECT t."id" as "id" FROM traces t  WHERE  t."version" = ?  AND t."project_id" = ?  LIMIT ?;''\<close>
    by (simp add: eval_defs zeroLimitQuery_def fiveLimitQuery_def)
  from values_never_in_text[OF s l, of fixtureDefinitions "''p1''" "''p2''"] a
  have b: \<open>statement_text (enrichAndCreateQuery fixtureDefinitions ''p2'' ?b)
       = Inr '' SELECT t."id" as "id" FROM traces t  WHERE  t."version" = ?  AND t."project_id" = ?  LIMIT ?;''\<close>
    by simp
  have v: "statement_values (enrichAndCreateQuery fixtureDefinitions ''p1'' fiveLimitQuery)
       = Inr [StringValue ''v2'', StringValue ''p1'', NumberValue 5]"
    "statement_values (enrichAndCreateQuery fixtureDefinitions ''p2'' ?b)
       = Inr [StringValue ''v1'', StringValue ''p2'', NumberValue 7]"
    by (simp_all add: eval_defs zeroLimitQuery_def fiveLimitQuery_def)
  from s a b v show ?thesis by blast
qed

end
